theory Spec2Isabelle
  imports Complex_Main "HOL-Library.AList"
begin

section \<open>JavaScript strings\<close>

text \<open>
  The parser works on JavaScript strings, which are sequences of UTF-16 code units; most of
  the literals it looks for are Japanese. A string is therefore modelled as the list of its
  code units, each a natural number, and every literal of the source is written as the list of
  its code units (in hexadecimal, as in a \<^verbatim>\<open>\uXXXX\<close> escape). ASCII literals are
  converted from HOL strings by \<open>asc\<close>.
\<close>

type_synonym ustring = "nat list"

definition asc :: "string \<Rightarrow> ustring" where
  "asc s = map of_char s"

text \<open>Inclusive code-unit ranges, the building block of character classes.\<close>

fun in_ranges :: "nat \<Rightarrow> (nat \<times> nat) list \<Rightarrow> bool" where
  "in_ranges c [] = False"
| "in_ranges c ((lo, hi) # rs) = ((lo \<le> c \<and> c \<le> hi) \<or> in_ranges c rs)"

text \<open>
  The white space of \<^verbatim>\<open>\s\<close> and of \<^verbatim>\<open>String.prototype.trim\<close>: the ECMAScript
  WhiteSpace and LineTerminator code points.
\<close>

definition ws_ranges :: "(nat \<times> nat) list" where
  "ws_ranges = [(0x09, 0x0D), (0x20, 0x20), (0xA0, 0xA0), (0x1680, 0x1680), (0x2000, 0x200A),
                (0x2028, 0x2029), (0x202F, 0x202F), (0x205F, 0x205F), (0x3000, 0x3000),
                (0xFEFF, 0xFEFF)]"

definition is_ws :: "nat \<Rightarrow> bool" where
  "is_ws c = in_ranges c ws_ranges"

definition trim :: "ustring \<Rightarrow> ustring" where
  "trim s = rev (dropWhile is_ws (rev (dropWhile is_ws s)))"

text \<open>\<^verbatim>\<open>s.split('\n')\<close>: always at least one piece.\<close>

fun split_nl :: "ustring \<Rightarrow> ustring list" where
  "split_nl [] = [[]]"
| "split_nl (c # cs) =
     (if c = 0x0A then [] # split_nl cs
      else (case split_nl cs of [] \<Rightarrow> [[c]] | l # ls \<Rightarrow> (c # l) # ls))"

fun starts_with :: "ustring \<Rightarrow> ustring \<Rightarrow> bool" where
  "starts_with s [] = True"
| "starts_with [] (p # ps) = False"
| "starts_with (c # cs) (p # ps) = (c = p \<and> starts_with cs ps)"

text \<open>\<^verbatim>\<open>s.includes(sub)\<close>.\<close>

fun js_includes :: "ustring \<Rightarrow> ustring \<Rightarrow> bool" where
  "js_includes [] sub = (sub = [])"
| "js_includes (c # cs) sub = (starts_with (c # cs) sub \<or> js_includes cs sub)"

text \<open>
  \<^verbatim>\<open>parseInt\<close> applied to a run of decimal digits (the only arguments the parser passes).
  Numbers are exact here; a JavaScript number is exact up to \<open>2^53\<close>.
\<close>

definition parseInt :: "ustring \<Rightarrow> nat" where
  "parseInt ds = foldl (\<lambda>a c. 10 * a + (c - 0x30)) 0 ds"

text \<open>
  \<^verbatim>\<open>parseFloat\<close> applied to a decimal numeral \<^verbatim>\<open>\d+(\.\d+)?\<close>: the rational the numeral
  denotes. Odds are kept as exact rationals; the rounding of binary floating point is not
  modelled.
\<close>

definition parseFloat :: "ustring \<Rightarrow> rat" where
  "parseFloat s =
     (let ip = takeWhile (\<lambda>c. c \<noteq> 0x2E) s;
          fp = drop (Suc (length ip)) s
      in of_nat (parseInt ip) + of_nat (parseInt fp) / 10 ^ length fp)"

section \<open>Regular expressions\<close>

text \<open>
  The fragment of ECMAScript regular expressions the parser uses, with the backtracking
  semantics of the language: alternatives are tried left to right, greedy quantifiers try the
  longest repetition first and lazy ones the shortest, and an iteration of a quantifier that
  consumes nothing is rejected. \<open>Grp i r\<close> is the \<open>i\<close>-th capturing group.
\<close>

datatype rx =
    Chars bool "(nat \<times> nat) list"
  | Str ustring
  | Cat rx rx
  | Alt rx rx
  | Star rx
  | LazyStar rx
  | Plus rx
  | LazyPlus rx
  | Opt rx
  | Grp nat rx
  | Bol
  | Eol

text \<open>
  A matcher state: whether the position is the start of the input, the input that remains,
  and the captures made so far (latest first).
\<close>

type_synonym mstate = "bool \<times> ustring \<times> (nat \<times> ustring) list"

definition remaining :: "mstate \<Rightarrow> ustring" where
  "remaining st = fst (snd st)"

primrec star_greedy :: "nat \<Rightarrow> (mstate \<Rightarrow> mstate list) \<Rightarrow> mstate \<Rightarrow> mstate list" where
  "star_greedy 0 f st = [st]"
| "star_greedy (Suc n) f st =
     concat (map (\<lambda>st'. if length (remaining st') < length (remaining st)
                         then star_greedy n f st' else []) (f st)) @ [st]"

primrec star_lazy :: "nat \<Rightarrow> (mstate \<Rightarrow> mstate list) \<Rightarrow> mstate \<Rightarrow> mstate list" where
  "star_lazy 0 f st = [st]"
| "star_lazy (Suc n) f st =
     st # concat (map (\<lambda>st'. if length (remaining st') < length (remaining st)
                              then star_lazy n f st' else []) (f st))"

text \<open>
  All the ways \<open>r\<close> matches at the head of the remaining input, in the order in which a
  backtracking matcher finds them. The fuel of a star is the length of the remaining input,
  which bounds the number of non-empty iterations.
\<close>

primrec rx_run :: "rx \<Rightarrow> mstate \<Rightarrow> mstate list" where
  "rx_run (Chars neg rs) st =
     (case remaining st of
        [] \<Rightarrow> []
      | c # cs \<Rightarrow> if in_ranges c rs \<noteq> neg then [(False, cs, snd (snd st))] else [])"
| "rx_run (Str l) st =
     (if starts_with (remaining st) l
      then [(fst st \<and> l = [], drop (length l) (remaining st), snd (snd st))] else [])"
| "rx_run (Cat r1 r2) st = concat (map (rx_run r2) (rx_run r1 st))"
| "rx_run (Alt r1 r2) st = rx_run r1 st @ rx_run r2 st"
| "rx_run (Star r) st = star_greedy (length (remaining st)) (rx_run r) st"
| "rx_run (LazyStar r) st = star_lazy (length (remaining st)) (rx_run r) st"
| "rx_run (Plus r) st =
     concat (map (\<lambda>st'. star_greedy (length (remaining st')) (rx_run r) st') (rx_run r st))"
| "rx_run (LazyPlus r) st =
     concat (map (\<lambda>st'. star_lazy (length (remaining st')) (rx_run r) st') (rx_run r st))"
| "rx_run (Opt r) st = rx_run r st @ [st]"
| "rx_run (Grp i r) st =
     map (\<lambda>st'. (fst st', remaining st',
                  (i, take (length (remaining st) - length (remaining st')) (remaining st))
                    # snd (snd st')))
         (rx_run r st)"
| "rx_run Bol st = (if fst st then [st] else [])"
| "rx_run Eol st = (if remaining st = [] then [st] else [])"

text \<open>
  \<^verbatim>\<open>s.match(r)\<close> for a pattern without the \<^verbatim>\<open>g\<close> flag: the first match at the leftmost
  position where there is one, as its captures; \<open>None\<close> is JavaScript's \<^verbatim>\<open>null\<close>.
\<close>

fun rx_search :: "rx \<Rightarrow> bool \<Rightarrow> ustring \<Rightarrow> (nat \<times> ustring) list option" where
  "rx_search r b [] = (case rx_run r (b, [], []) of [] \<Rightarrow> None | m # _ \<Rightarrow> Some (snd (snd m)))"
| "rx_search r b (c # cs) =
     (case rx_run r (b, c # cs, []) of
        [] \<Rightarrow> rx_search r False cs
      | m # _ \<Rightarrow> Some (snd (snd m)))"

definition js_match :: "rx \<Rightarrow> ustring \<Rightarrow> (nat \<times> ustring) list option" where
  "js_match r s = rx_search r True s"

definition js_test :: "rx \<Rightarrow> ustring \<Rightarrow> bool" where
  "js_test r s = (js_match r s \<noteq> None)"

text \<open>The text of capturing group \<open>i\<close> of a match (every group read by the parser took part).\<close>

definition grp :: "(nat \<times> ustring) list \<Rightarrow> nat \<Rightarrow> ustring" where
  "grp caps i = (case map_of caps i of None \<Rightarrow> [] | Some g \<Rightarrow> g)"

text \<open>Shorthands for the classes and repetitions of the source's patterns.\<close>

definition digit :: rx where
  "digit = Chars False [(0x30, 0x39)]"

definition space :: rx where
  "space = Chars False ws_ranges"

definition nonspace :: rx where
  "nonspace = Chars True ws_ranges"

definition anychar :: rx where
  "anychar = Chars True [(0x0A, 0x0A), (0x0D, 0x0D), (0x2028, 0x2029)]"

definition cats :: "rx list \<Rightarrow> rx" where
  "cats rs = foldr Cat rs (Str [])"

definition alts :: "rx list \<Rightarrow> rx" where
  "alts rs = foldr Alt (butlast rs) (last rs)"

text \<open>\<^verbatim>\<open>\d+(?:\.\d+)?\<close>\<close>

definition decimal :: rx where
  "decimal = Cat (Plus digit) (Opt (Cat (Str (asc ''.'')) (Plus digit)))"


section \<open>Literals of the source\<close>

text \<open>
  The Japanese literals of the parser, as UTF-16 code units. The names romanise the words.
\<close>

definition jp_venues :: "ustring list" where
  \<comment> \<open>Tokyo, Nakayama, Hanshin, Kyoto, Chukyo, Niigata, Fukushima, Kokura, Sapporo, Hakodate\<close>
  "jp_venues = [[0x6771, 0x4EAC], [0x4E2D, 0x5C71], [0x962A, 0x795E], [0x4EAC, 0x90FD],
                [0x4E2D, 0x4EAC], [0x65B0, 0x6F5F], [0x798F, 0x5CF6], [0x5C0F, 0x5009],
                [0x672D, 0x5E4C], [0x51FD, 0x9928]]"

definition jp_shiba :: ustring where \<comment> \<open>turf\<close>
  "jp_shiba = [0x829D]"

definition jp_dirt :: ustring where \<comment> \<open>dirt\<close>
  "jp_dirt = [0x30C0, 0x30FC, 0x30C8]"

definition jp_ryo :: ustring where \<comment> \<open>track condition: firm\<close>
  "jp_ryo = [0x826F]"

definition jp_yayaomo :: ustring where \<comment> \<open>track condition: good\<close>
  "jp_yayaomo = [0x7A0D, 0x91CD]"

definition jp_omo :: ustring where \<comment> \<open>track condition: yielding\<close>
  "jp_omo = [0x91CD]"

definition jp_furyo :: ustring where \<comment> \<open>track condition: soft\<close>
  "jp_furyo = [0x4E0D, 0x826F]"

definition jp_open :: ustring where \<comment> \<open>open class\<close>
  "jp_open = [0x30AA, 0x30FC, 0x30D7, 0x30F3]"

definition jp_listed :: ustring where \<comment> \<open>listed, in katakana\<close>
  "jp_listed = [0x30EA, 0x30B9, 0x30C6, 0x30C3, 0x30C9]"

definition jp_class :: "nat \<Rightarrow> ustring" where \<comment> \<open>the class of horses with \<open>n\<close> wins, \<open>n\<close> a digit\<close>
  "jp_class n = [0x30 + n, 0x52DD, 0x30AF, 0x30E9, 0x30B9]"

definition jp_maiden :: ustring where \<comment> \<open>maiden\<close>
  "jp_maiden = [0x672A, 0x52DD, 0x5229]"

definition jp_shinba :: ustring where \<comment> \<open>newcomer\<close>
  "jp_shinba = [0x65B0, 0x99AC]"

definition jp_fumei :: ustring where \<comment> \<open>unknown\<close>
  "jp_fumei = [0x4E0D, 0x660E]"

definition jp_hasso :: ustring where \<comment> \<open>post time\<close>
  "jp_hasso = [0x767A, 0x8D70]"

definition jp_baba :: ustring where \<comment> \<open>track, followed by a colon\<close>
  "jp_baba = [0x99AC, 0x5834, 0x3A]"

definition jp_kai :: ustring where \<comment> \<open>meeting counter\<close>
  "jp_kai = [0x56DE]"

definition jp_nichime :: ustring where \<comment> \<open>day counter\<close>
  "jp_nichime = [0x65E5, 0x76EE]"

definition jp_nen :: ustring where \<comment> \<open>year\<close>
  "jp_nen = [0x5E74]"

definition jp_gatsu :: ustring where \<comment> \<open>month\<close>
  "jp_gatsu = [0x6708]"

definition jp_nichi :: ustring where \<comment> \<open>day\<close>
  "jp_nichi = [0x65E5]"

definition jp_ninki :: ustring where \<comment> \<open>popularity rank\<close>
  "jp_ninki = [0x4EBA, 0x6C17]"

definition jp_miho :: ustring where \<comment> \<open>Miho training centre\<close>
  "jp_miho = [0x7F8E, 0x6D66]"

definition jp_ritto :: ustring where \<comment> \<open>Ritto training centre\<close>
  "jp_ritto = [0x6817, 0x6771]"

definition jp_osu :: ustring where \<comment> \<open>male\<close>
  "jp_osu = [0x7261]"

definition jp_mesu :: ustring where \<comment> \<open>female\<close>
  "jp_mesu = [0x725D]"

definition jp_sen :: ustring where \<comment> \<open>gelding\<close>
  "jp_sen = [0x30BB]"

definition jp_kyuyo :: ustring where \<comment> \<open>rest\<close>
  "jp_kyuyo = [0x4F11, 0x990A]"

definition jp_teppo :: ustring where
  "jp_teppo = [0x9244, 0x7832]"

definition jp_kagetsu :: ustring where \<comment> \<open>months\<close>
  "jp_kagetsu = [0x30F5, 0x6708]"

definition jp_soume :: ustring where \<comment> \<open>n-th run\<close>
  "jp_soume = [0x8D70, 0x76EE]"

definition jp_view_replay :: ustring where \<comment> \<open>the "view replay" marker\<close>
  "jp_view_replay = [0x6620, 0x50CF, 0x3092, 0x898B, 0x308B]"

definition jp_tansho :: ustring where \<comment> \<open>header of the win section\<close>
  "jp_tansho = [0x5358, 0x52DD]"

definition jp_fukusho :: ustring where \<comment> \<open>header of the place section\<close>
  "jp_fukusho = [0x8907, 0x52DD]"

section \<open>Data model\<close>

datatype Surface = TURF | DIRT

datatype TrackCondition = FIRM | GOOD | YIELDING | SOFT

datatype RaceClass = G1 | G2 | G3 | LISTED | OPEN | CLASS_3 | CLASS_2 | CLASS_1 | MAIDEN

datatype Gender = MALE | FEMALE | GELDING

text \<open>
  A \<^verbatim>\<open>Date\<close>: either built from a year, a month index and a day
  (\<^verbatim>\<open>new Date(y, m, d)\<close>), or the reading of the clock at the call (\<^verbatim>\<open>new Date()\<close>).
  The clock is an explicit argument of the functions that read it.
\<close>

datatype js_date = DateOf int int int | DateNow nat

record RaceInfo =
  venue :: ustring
  raceNumber :: nat
  title :: ustring
  distance :: nat
  surface :: Surface
  condition :: TrackCondition
  raceClass :: RaceClass
  date :: js_date

record HorseData =
  number :: nat
  name :: ustring
  age :: nat
  gender :: Gender
  weight :: rat
  jockeyName :: ustring
  trainerName :: ustring

record OddsData =
  horseNumber :: nat
  winOdds :: rat
  placeOddsMin :: rat
  placeOddsMax :: rat

text \<open>
  The messages of the source are template strings in Japanese. A message is modelled by its
  template and the values substituted into it.
\<close>

datatype msg =
    RaceTitleNotFound
  | RaceDetailsNotFound
  | MeetingInfoNotFound
  | RaceNumberDefaulted
  | VenueNotFound
  | RaceNumberNotFound
  | DistanceNotFound
  | ConditionDefaulted
  | ClassDefaulted
  | DateNotFound
  | HorseBlockFailed nat msg
  | HorseLineFailed nat msg
  | NoValidHorses
  | TooManyHorses nat
  | FrameHorseNotFound ustring
  | HorseNameNotFound nat
  | HorseLineMalformed ustring
  | OddsLineFailed nat msg
  | OddsLineMalformed ustring
  | NotDefined string
  | ParseFailed

text \<open>
  What a \<^verbatim>\<open>throw\<close> raises: an \<^verbatim>\<open>Error\<close> built by the parser, or the
  \<^verbatim>\<open>ReferenceError\<close> of an assignment to an identifier that is not declared (the module is
  strict-mode code). Both are instances of \<^verbatim>\<open>Error\<close>, so a handler reads their message.
\<close>

datatype js_error = Error msg | ReferenceError string

fun error_message :: "js_error \<Rightarrow> msg" where
  "error_message (Error m) = m"
| "error_message (ReferenceError v) = NotDefined v"

datatype error_type = RACE_INFO | HORSE_DATA | ODDS_DATA | VALIDATION

record ParseError =
  errType :: error_type
  field :: string
  message :: msg
  rawData :: "ustring option"
  lineNumber :: "nat option"

record 'a ParseResult =
  success :: bool
  data :: "'a option"
  errors :: "ParseError list"
  warnings :: "msg list"

record ParserConfig =
  strictMode :: bool
  skipInvalidHorses :: bool
  defaultOdds :: rat
  maxHorses :: nat

text \<open>The configuration of \<^verbatim>\<open>new NetKeibaParser()\<close>.\<close>

definition defaultConfig :: ParserConfig where
  "defaultConfig = \<lparr>strictMode = False, skipInvalidHorses = True, defaultOdds = 999 / 10,
                     maxHorses = 18\<rparr>"

text \<open>\<^verbatim>\<open>s || d\<close> on strings, and \<^verbatim>\<open>m?.[i] || d\<close> on a match.\<close>

definition or_else :: "ustring \<Rightarrow> ustring \<Rightarrow> ustring" where
  "or_else s d = (if s = [] then d else s)"

definition group_or :: "(nat \<times> ustring) list option \<Rightarrow> nat \<Rightarrow> ustring \<Rightarrow> ustring" where
  "group_or m i d = (case m of None \<Rightarrow> d | Some c \<Rightarrow> or_else (grp c i) d)"

section \<open>Helpers shared by both versions of the parser\<close>

definition parseSurface :: "ustring \<Rightarrow> Surface" where
  "parseSurface s = (if s = jp_shiba then TURF else if s = jp_dirt then DIRT else TURF)"

definition parseTrackCondition :: "ustring \<Rightarrow> TrackCondition" where
  "parseTrackCondition s =
     (if s = jp_ryo then FIRM else if s = jp_yayaomo then GOOD
      else if s = jp_omo then YIELDING else if s = jp_furyo then SOFT else FIRM)"

definition parseRaceClass :: "ustring \<Rightarrow> RaceClass" where
  "parseRaceClass s =
     (if s = asc ''G1'' then G1 else if s = asc ''G2'' then G2 else if s = asc ''G3'' then G3
      else if s = asc ''Listed'' then LISTED else if s = jp_open then OPEN
      else if s = jp_class 3 then CLASS_3 else if s = jp_class 2 then CLASS_2
      else if s = jp_class 1 then CLASS_1 else if s = jp_maiden then MAIDEN else OPEN)"

definition parseGender :: "ustring \<Rightarrow> Gender" where
  "parseGender s =
     (if s = jp_osu then MALE else if s = jp_mesu then FEMALE
      else if s = jp_sen then GELDING else MALE)"

definition convertGenderToString :: "Gender \<Rightarrow> string" where
  "convertGenderToString g =
     (case g of MALE \<Rightarrow> ''male'' | FEMALE \<Rightarrow> ''female'' | GELDING \<Rightarrow> ''gelding'')"

text \<open>\<^verbatim>\<open>/(\d+)R/\<close>, the race-number marker of both versions.\<close>

definition raceNumber_rx :: rx where
  "raceNumber_rx = cats [Grp 1 (Plus digit), Str (asc ''R'')]"


section \<open>The layout-keyed parser\<close>

text \<open>
  The version of \<^verbatim>\<open>NetKeibaParser\<close> written for the layout of the pages as they are
  copied: the race header is read by position, the roster is cut into one block per horse
  at the frame/horse-number lines, and the odds come in a win and a place section.
\<close>

subsection \<open>Race information\<close>

definition raceDetails_rx :: rx where
  "raceDetails_rx =
     cats [Grp 1 (Plus digit), Str (asc '':''), Grp 2 (Plus digit), Str jp_hasso, Star anychar,
           Grp 3 (alts [Str jp_shiba, Str jp_dirt]), Grp 4 (Plus digit), Str (asc ''m''),
           Star anychar, Str jp_baba,
           Grp 5 (alts [Str jp_ryo, Str jp_yayaomo, Str jp_omo, Str jp_furyo])]"

definition meetingInfo_rx :: rx where
  "meetingInfo_rx =
     cats [Grp 1 (Plus digit), Str jp_kai, Star space, Grp 2 (alts (map Str jp_venues)),
           Star space, Grp 3 (Plus digit), Str jp_nichime, LazyStar anychar,
           Grp 4 (alts [Cat (Str (asc ''G'')) (Chars False [(0x31, 0x33)]), Str jp_listed,
                        Str (asc ''Listed''), Str jp_open, Str (jp_class 3), Str (jp_class 2),
                        Str (jp_class 1), Str jp_maiden, Str jp_shinba])]"

definition race_error :: "string \<Rightarrow> msg \<Rightarrow> ustring \<Rightarrow> ParseError" where
  "race_error f m text =
     \<lparr>errType = RACE_INFO, field = f, message = m, rawData = Some text, lineNumber = None\<rparr>"

text \<open>\<^verbatim>\<open>lines[0] ? lines[0].trim() : ''\<close>: the candidate for the race name.\<close>

definition titleLine :: "ustring list \<Rightarrow> ustring" where
  "titleLine lines = (case lines of [] \<Rightarrow> [] | l0 # _ \<Rightarrow> if l0 = [] then [] else trim l0)"

text \<open>
  \<^verbatim>\<open>parseRaceInfo(text)\<close>, in the three parts of its body: the errors pushed while the
  fields are looked for, the race number with the warnings, and the record built at the end.
  Nothing in the body of its \<^verbatim>\<open>try\<close> raises, so the handler is never entered. \<open>now\<close>
  is the clock read by \<^verbatim>\<open>new Date()\<close>.
\<close>

definition raceErrors :: "ustring \<Rightarrow> ParseError list" where
  "raceErrors text =
     (if titleLine (split_nl text) = [] then [race_error ''title'' RaceTitleNotFound text] else []) @
     (if js_match raceDetails_rx text = None
      then [race_error ''raceDetails'' RaceDetailsNotFound text] else []) @
     (if js_match meetingInfo_rx text = None
      then [race_error ''meetingInfo'' MeetingInfoNotFound text] else [])"

definition raceNumberOf :: "ustring \<Rightarrow> nat" where
  "raceNumberOf text =
     (case js_match raceNumber_rx text of Some c \<Rightarrow> parseInt (grp c 1) | None \<Rightarrow> 11)"

definition raceWarnings :: "ustring \<Rightarrow> msg list" where
  "raceWarnings text =
     (case js_match raceNumber_rx text of Some c \<Rightarrow> [] | None \<Rightarrow> [RaceNumberDefaulted])"

definition buildRaceInfo :: "nat \<Rightarrow> ustring \<Rightarrow> RaceInfo" where
  "buildRaceInfo now text =
     (let titleMatch = titleLine (split_nl text);
          raceDetailsMatch = js_match raceDetails_rx text;
          meetingMatch = js_match meetingInfo_rx text
      in \<lparr>venue = group_or meetingMatch 2 jp_fumei,
          raceNumber = raceNumberOf text,
          title = or_else titleMatch jp_fumei,
          distance = (case raceDetailsMatch of Some c \<Rightarrow> parseInt (grp c 4) | None \<Rightarrow> 0),
          surface = parseSurface (group_or raceDetailsMatch 3 jp_shiba),
          condition = parseTrackCondition (group_or raceDetailsMatch 5 jp_ryo),
          raceClass = parseRaceClass (group_or meetingMatch 4 jp_open),
          date = DateNow now\<rparr>)"

definition parseRaceInfo :: "ParserConfig \<Rightarrow> nat \<Rightarrow> ustring \<Rightarrow> RaceInfo ParseResult" where
  "parseRaceInfo cfg now text =
     (let errs = raceErrors text;
          warns = raceWarnings text;
          failed = \<lparr>success = False, data = None, errors = errs, warnings = warns\<rparr>
      in if errs \<noteq> [] \<and> strictMode cfg then failed
         else if errs \<noteq> [] \<and>
                 filter (\<lambda>e. field e = ''title'' \<or> field e = ''raceDetails''
                              \<or> field e = ''meetingInfo'') errs \<noteq> [] then failed
         else \<lparr>success = True, data = Some (buildRaceInfo now text), errors = errs,
               warnings = warns\<rparr>)"

subsection \<open>The roster\<close>

text \<open>\<^verbatim>\<open>/^(\d+)\s+(\d+)\s*$/\<close>: a line of a frame number and a horse number.\<close>

definition frameHorseLine_rx :: rx where
  "frameHorseLine_rx =
     cats [Bol, Grp 1 (Plus digit), Plus space, Grp 2 (Plus digit), Star space, Eol]"

text \<open>
  The loop of \<^verbatim>\<open>splitIntoHorseBlocks\<close> over the lines that remain, with the blocks
  closed so far, the block being built and the flag \<^verbatim>\<open>inHorseData\<close>. A marker line
  starts a block made of itself and of the line after it; that line is then visited in
  its turn and, unless it is a marker, appended once more.
\<close>

fun splitLoop :: "ustring list \<Rightarrow> ustring list \<Rightarrow> ustring \<Rightarrow> bool \<Rightarrow> ustring list" where
  "splitLoop [] blocks currentBlock inHorseData =
     (if trim currentBlock \<noteq> [] \<and> inHorseData then blocks @ [trim currentBlock] else blocks)"
| "splitLoop (line # rest) blocks currentBlock inHorseData =
     (if js_test frameHorseLine_rx line
      then splitLoop rest
             (if trim currentBlock \<noteq> [] \<and> inHorseData then blocks @ [trim currentBlock]
              else blocks)
             (case rest of [] \<Rightarrow> line | nxt # _ \<Rightarrow> line @ [0x0A] @ nxt)
             True
      else if inHorseData then splitLoop rest blocks (currentBlock @ [0x0A] @ line) inHorseData
      else splitLoop rest blocks currentBlock inHorseData)"

definition splitIntoHorseBlocks :: "ustring \<Rightarrow> ustring list" where
  "splitIntoHorseBlocks text = splitLoop (split_nl text) [] [] False"

text \<open>\<^verbatim>\<open>/^(\d+)\s+(\d+)/\<close>\<close>

definition frameHorse_rx :: rx where
  "frameHorse_rx = cats [Bol, Grp 1 (Plus digit), Plus space, Grp 2 (Plus digit)]"

text \<open>The character class of the test for a name candidate, and the test itself.\<close>

definition nameChar_rx :: rx where
  "nameChar_rx = Chars False [(0x30A1, 0x30F6), (0x30FC, 0x30FC), (0x3040, 0x309F),
                              (0x30A0, 0x30FF), (0x61, 0x7A), (0x41, 0x5A)]"

definition isNameCandidate :: "ustring \<Rightarrow> bool" where
  "isNameCandidate line \<longleftrightarrow>
     line \<noteq> [] \<and> js_test nameChar_rx line \<and>
     \<not> js_includes line (asc ''('') \<and> \<not> js_includes line (asc '')'') \<and>
     \<not> js_includes line (asc ''kg'') \<and> \<not> js_includes line jp_ninki \<and>
     \<not> js_includes line jp_miho \<and> \<not> js_includes line jp_ritto \<and>
     \<not> js_includes line [0x5DEE] \<and> \<not> js_includes line [0x9003] \<and>
     \<not> js_includes line [0x5148] \<and> \<not> js_includes line jp_osu \<and>
     \<not> js_includes line jp_mesu \<and> \<not> js_includes line jp_sen \<and>
     \<not> js_includes line [0x9031] \<and> \<not> js_includes line jp_kyuyo"

text \<open>\<^verbatim>\<open>/(\d+\.\d+)\s*\((\d+)<ninki>\)/\<close>\<close>

definition oddsPattern :: rx where
  "oddsPattern =
     cats [Grp 1 (cats [Plus digit, Str (asc ''.''), Plus digit]), Star space, Str (asc ''(''),
           Grp 2 (Plus digit), Str jp_ninki, Str (asc '')'')]"

text \<open>The pattern of gender, age and coat colour.\<close>

definition genderAgeColorPattern :: rx where
  "genderAgeColorPattern =
     cats [Grp 1 (alts [Str jp_osu, Str jp_mesu, Str jp_sen]), Grp 2 (Plus digit),
           Grp 3 (alts [Str [0x9ED2, 0x9E7F], Str [0x6817], Str [0x9E7F], Str [0x9752, 0x9E7F],
                        Str [0x82A6], Str [0x767D]])]"

text \<open>\<^verbatim>\<open>/(\d+)kg\(([+-]?\d+)\)/\<close>\<close>

definition weightPattern :: rx where
  "weightPattern =
     cats [Grp 1 (Plus digit), Str (asc ''kg(''),
           Grp 2 (Cat (Opt (Chars False [(0x2B, 0x2B), (0x2D, 0x2D)])) (Plus digit)),
           Str (asc '')'')]"

text \<open>The pattern a jockey's name has to match as a whole, and the running-style pattern.\<close>

definition jockeyName_rx :: rx where
  "jockeyName_rx =
     cats [Bol,
           Plus (Chars False [(0x3040, 0x309F), (0x30A0, 0x30FF), (0x4E00, 0x9FAF),
                              (0x3041, 0x3096), (0x30A1, 0x30FA), (0xFF41, 0xFF5A),
                              (0xFF21, 0xFF3A), (0x30FC, 0x30FC), (0x30A2, 0x30F3),
                              (0x61, 0x7A), (0x41, 0x5A), (0x30FB, 0x30FB), (0x30FC, 0x30FC),
                              (0x3001, 0x3001), (0x3002, 0x3002), (0x3001, 0x3001),
                              (0x3002, 0x3002), (0x30FB, 0x30FB), (0xB7, 0xB7),
                              (0x3005, 0x3005)]),
           Eol]"

definition runningStyle_rx :: rx where
  "runningStyle_rx =
     Cat (Chars False [(0x5DEE, 0x5DEE), (0x9003, 0x9003), (0x5148, 0x5148), (0x5927, 0x5927)])
         (Chars False [(0x4E2D, 0x4E2D), (0x5927, 0x5927), (0x9031, 0x9031)])"

definition isJockeyName :: "ustring \<Rightarrow> bool" where
  "isJockeyName line \<longleftrightarrow>
     line \<noteq> [] \<and> 2 \<le> length line \<and> length line \<le> 8 \<and> js_test jockeyName_rx line \<and>
     \<not> js_includes line jp_miho \<and> \<not> js_includes line jp_ritto \<and>
     \<not> js_test runningStyle_rx line \<and> \<not> js_includes line (asc ''kg'') \<and>
     \<not> js_includes line jp_ninki \<and> \<not> js_includes line jp_kyuyo \<and>
     \<not> js_includes line jp_teppo \<and> \<not> js_includes line jp_kagetsu \<and>
     \<not> js_includes line jp_soume \<and> line \<noteq> jp_view_replay \<and>
     \<not> js_test (cats [Bol, Plus digit, Str (asc ''.''), Plus digit]) line \<and>
     \<not> js_test (cats [Bol, digit, digit, digit, digit]) line"

text \<open>
  The loop that looks for the jockey's name and the carried weight: the result is the pair
  of \<^verbatim>\<open>jockeyName\<close> and \<^verbatim>\<open>weight\<close> when the loop ends.
\<close>

fun jockeyLoop :: "ustring list \<Rightarrow> bool \<Rightarrow> ustring \<times> rat" where
  "jockeyLoop [] foundGenderAge = ([], 55)"
| "jockeyLoop (l # rest) foundGenderAge =
     (let line = trim l in
      if js_test genderAgeColorPattern line then jockeyLoop rest True
      else if line = [] \<and> foundGenderAge then jockeyLoop rest foundGenderAge
      else if foundGenderAge \<and> isJockeyName line
      then (line,
            (case rest of
               [] \<Rightarrow> 55
             | nxt # _ \<Rightarrow>
                 (case js_match (cats [Bol, Grp 1 (cats [Plus digit, Str (asc ''.''), Plus digit])])
                         (trim nxt) of
                    Some w \<Rightarrow> parseFloat (grp w 1)
                  | None \<Rightarrow> 55)))
      else jockeyLoop rest foundGenderAge)"

text \<open>\<^verbatim>\<open>/(<miho>|<ritto>)<middle dot>([^\s]+)/\<close>\<close>

definition trainerPattern :: rx where
  "trainerPattern =
     cats [Grp 1 (alts [Str jp_miho, Str jp_ritto]), Str [0x30FB], Grp 2 (Plus nonspace)]"

text \<open>The first line that matches a pattern, as the loops \<^verbatim>\<open>for (const line of lines)\<close> find it.\<close>

fun firstMatch :: "rx \<Rightarrow> ustring list \<Rightarrow> (nat \<times> ustring) list option" where
  "firstMatch r [] = None"
| "firstMatch r (l # ls) = (case js_match r l of Some c \<Rightarrow> Some c | None \<Rightarrow> firstMatch r ls)"

text \<open>\<^verbatim>\<open>lines[0]\<close>; a split string has at least one line.\<close>

definition firstLine :: "ustring list \<Rightarrow> ustring" where
  "firstLine lines = (case lines of [] \<Rightarrow> [] | l0 # _ \<Rightarrow> l0)"

text \<open>
  \<^verbatim>\<open>parseHorseBlock(block, blockNumber)\<close>. The declarations of \<^verbatim>\<open>odds\<close> and of
  \<^verbatim>\<open>bodyWeight\<close> are commented out in the source while the assignments to them remain:
  reaching one raises a \<^verbatim>\<open>ReferenceError\<close>.
\<close>

definition parseHorseBlock :: "ustring \<Rightarrow> nat \<Rightarrow> js_error + HorseData" where
  "parseHorseBlock block blockNumber =
     (let lines = split_nl block
      in case js_match frameHorse_rx (firstLine lines) of
           None \<Rightarrow> Inl (Error (FrameHorseNotFound (firstLine lines)))
         | Some fh \<Rightarrow>
            (let horseNum = parseInt (grp fh 2);
                 candidateNames = filter isNameCandidate (map trim (take 4 (drop 2 lines)));
                 horseName = (case candidateNames of
                                [] \<Rightarrow> []
                              | [n0] \<Rightarrow> n0
                              | n0 # n1 # _ \<Rightarrow> n1)
             in if horseName = [] then Inl (Error (HorseNameNotFound blockNumber))
                else if firstMatch oddsPattern lines \<noteq> None then Inl (ReferenceError ''odds'')
                else
                  (let ga = firstMatch genderAgeColorPattern lines;
                       gender_s = (case ga of Some c \<Rightarrow> grp c 1 | None \<Rightarrow> asc ''male'');
                       age_n = (case ga of Some c \<Rightarrow> parseInt (grp c 2) | None \<Rightarrow> 4)
                   in if firstMatch weightPattern lines \<noteq> None
                      then Inl (ReferenceError ''bodyWeight'')
                      else
                        (let jw = jockeyLoop lines False;
                             trainer = (case firstMatch trainerPattern lines of
                                          Some c \<Rightarrow> trim (grp c 2) | None \<Rightarrow> [])
                         in Inr \<lparr>number = horseNum, name = horseName, age = age_n,
                                 gender = parseGender gender_s, weight = snd jw,
                                 jockeyName = fst jw, trainerName = trainer\<rparr>))))"

text \<open>
  The state of \<^verbatim>\<open>parseHorseDataInternal\<close>: the horses, errors and warnings collected so
  far.
\<close>

record roster_state =
  rs_horses :: "HorseData list"
  rs_errors :: "ParseError list"
  rs_warnings :: "msg list"

definition roster_init :: roster_state where
  "roster_init = \<lparr>rs_horses = [], rs_errors = [], rs_warnings = []\<rparr>"

text \<open>The loop over the blocks; \<open>i\<close> is the index of the first block that remains.\<close>

fun blockLoop :: "ParserConfig \<Rightarrow> nat \<Rightarrow> ustring list \<Rightarrow> roster_state \<Rightarrow> roster_state" where
  "blockLoop cfg i [] st = st"
| "blockLoop cfg i (block # rest) st =
     (case parseHorseBlock block (i + 1) of
        Inr horse \<Rightarrow> blockLoop cfg (i + 1) rest (st\<lparr>rs_horses := rs_horses st @ [horse]\<rparr>)
      | Inl err \<Rightarrow>
          (let parseError = \<lparr>errType = HORSE_DATA, field = ''horseBlock'',
                              message = HorseBlockFailed (i + 1) (error_message err),
                              rawData = Some block, lineNumber = Some (i + 1)\<rparr>
           in if skipInvalidHorses cfg
              then blockLoop cfg (i + 1) rest
                     (st\<lparr>rs_warnings := rs_warnings st @ [message parseError]\<rparr>)
              else blockLoop cfg (i + 1) rest (st\<lparr>rs_errors := rs_errors st @ [parseError]\<rparr>)))"

text \<open>What follows the loop, in both versions of \<^verbatim>\<open>parseHorseDataInternal\<close>.\<close>

definition roster_result :: "ParserConfig \<Rightarrow> ustring \<Rightarrow> roster_state \<Rightarrow> HorseData list ParseResult"
  where
  "roster_result cfg text st =
     (let errs = rs_errors st @
                 (if rs_horses st = []
                  then [\<lparr>errType = HORSE_DATA, field = ''general'', message = NoValidHorses,
                          rawData = Some text, lineNumber = None\<rparr>]
                  else []);
          warns = rs_warnings st @
                  (if length (rs_horses st) > maxHorses cfg then [TooManyHorses (maxHorses cfg)]
                   else [])
      in \<lparr>success = (errs = []), data = Some (rs_horses st), errors = errs, warnings = warns\<rparr>)"

text \<open>
  \<^verbatim>\<open>parseHorseDataInternal(text)\<close>. What \<^verbatim>\<open>parseHorseBlock\<close> raises is caught inside
  the loop and nothing else in the body raises, so the outer handler is never entered.
\<close>

definition parseHorseDataInternal :: "ParserConfig \<Rightarrow> ustring \<Rightarrow> HorseData list ParseResult" where
  "parseHorseDataInternal cfg text =
     roster_result cfg text (blockLoop cfg 0 (splitIntoHorseBlocks text) roster_init)"

record HorseDataForm =
  f_number :: nat
  f_name :: ustring
  f_age :: nat
  f_gender :: string
  f_weight :: rat
  f_jockeyName :: ustring
  f_trainerName :: ustring
  f_ownerName :: ustring

definition toForm :: "HorseData \<Rightarrow> HorseDataForm" where
  "toForm horse =
     \<lparr>f_number = number horse, f_name = name horse, f_age = age horse,
      f_gender = convertGenderToString (gender horse), f_weight = weight horse,
      f_jockeyName = jockeyName horse, f_trainerName = trainerName horse, f_ownerName = []\<rparr>"

text \<open>
  The tail of \<^verbatim>\<open>parseHorseData\<close>, the entry point for the form: it throws the message
  of the first error when the internal result is unsuccessful or has no data.
\<close>

definition formResult :: "HorseData list ParseResult \<Rightarrow> js_error + HorseDataForm list" where
  "formResult result =
     (case data result of
        None \<Rightarrow> Inl (Error (case errors result of [] \<Rightarrow> ParseFailed | e # _ \<Rightarrow> message e))
      | Some horses \<Rightarrow>
          if \<not> success result
          then Inl (Error (case errors result of [] \<Rightarrow> ParseFailed | e # _ \<Rightarrow> message e))
          else Inr (map toForm horses))"

definition parseHorseData :: "ParserConfig \<Rightarrow> ustring \<Rightarrow> js_error + HorseDataForm list" where
  "parseHorseData cfg text = formResult (parseHorseDataInternal cfg text)"


subsection \<open>The odds\<close>

datatype odds_section = NoSection | WinSection | PlaceSection

text \<open>
  A \<^verbatim>\<open>Map\<close> keeps its keys in the order of their first insertion; \<^verbatim>\<open>set\<close> on a key
  that is present replaces the value in place. This is \<open>AList.update\<close> on an association
  list. A \<^verbatim>\<open>Set\<close> likewise keeps the first occurrence of each element.
\<close>

definition set_add :: "nat list \<Rightarrow> nat \<Rightarrow> nat list" where
  "set_add acc x = (if x \<in> set acc then acc else acc @ [x])"

definition new_Set :: "nat list \<Rightarrow> nat list" where
  "new_Set xs = foldl set_add [] xs"

definition isHeaderLine :: "ustring \<Rightarrow> bool" where
  "isHeaderLine line \<longleftrightarrow>
     (js_includes line [0x67A0] \<and> js_includes line [0x99AC]) \<or>
     (js_includes line [0x756A] \<and> js_includes line [0x5370]) \<or>
     (js_includes line [0x9078, 0x629E] \<and> js_includes line [0x99AC, 0x540D])"

text \<open>\<^verbatim>\<open>/^(.+?)\s+(\d+(?:\.\d+)?)$/\<close> and \<^verbatim>\<open>/^(.+?)\s+(\d+(?:\.\d+)?)\s*-\s*(\d+(?:\.\d+)?)$/\<close>\<close>

definition winLine_rx :: rx where
  "winLine_rx = cats [Bol, Grp 1 (LazyPlus anychar), Plus space, Grp 2 decimal, Eol]"

definition placeLine_rx :: rx where
  "placeLine_rx =
     cats [Bol, Grp 1 (LazyPlus anychar), Plus space, Grp 2 decimal, Star space,
           Str (asc ''-''), Star space, Grp 3 decimal, Eol]"

type_synonym odds_maps = "(nat \<times> rat) list \<times> (nat \<times> rat \<times> rat) list"

text \<open>
  The scan of \<^verbatim>\<open>parseOdds\<close> over the lines that remain, with the current section and the
  two maps. After a marker line whose data line matches, the data line is skipped; in every
  other case the scan goes on with the next line, and nothing is recorded.
\<close>

fun oddsLoop :: "odds_section \<Rightarrow> ustring list \<Rightarrow> odds_maps \<Rightarrow> odds_maps" where
  "oddsLoop currentSection [] maps = maps"
| "oddsLoop currentSection (l # rest) maps =
     (let line = trim l in
      if line = [] then oddsLoop currentSection rest maps
      else if line = jp_tansho then oddsLoop WinSection rest maps
      else if line = jp_fukusho then oddsLoop PlaceSection rest maps
      else if isHeaderLine line then oddsLoop currentSection rest maps
      else
        (case js_match frameHorseLine_rx line of
           None \<Rightarrow> oddsLoop currentSection rest maps
         | Some fh \<Rightarrow>
            (case rest of
               [] \<Rightarrow> oddsLoop currentSection rest maps
             | nxt # rest' \<Rightarrow>
                 (let horseNum = parseInt (grp fh 2);
                      nextLine = trim nxt
                  in if currentSection = WinSection
                     then (case js_match winLine_rx nextLine of
                             Some w \<Rightarrow>
                               oddsLoop currentSection rest'
                                 (AList.update horseNum (parseFloat (grp w 2)) (fst maps),
                                  snd maps)
                           | None \<Rightarrow> oddsLoop currentSection rest maps)
                     else if currentSection = PlaceSection
                     then (case js_match placeLine_rx nextLine of
                             Some pm \<Rightarrow>
                               oddsLoop currentSection rest'
                                 (fst maps,
                                  AList.update horseNum
                                    (parseFloat (grp pm 2), parseFloat (grp pm 3)) (snd maps))
                           | None \<Rightarrow> oddsLoop currentSection rest maps)
                     else oddsLoop currentSection rest maps))))"

text \<open>\<^verbatim>\<open>x || d\<close> on numbers: zero and \<^verbatim>\<open>undefined\<close> give the default.\<close>

definition num_or :: "rat option \<Rightarrow> rat \<Rightarrow> rat" where
  "num_or v d = (case v of None \<Rightarrow> d | Some x \<Rightarrow> if x = 0 then d else x)"

definition oddsRecord :: "ParserConfig \<Rightarrow> odds_maps \<Rightarrow> nat \<Rightarrow> OddsData" where
  "oddsRecord cfg maps n =
     (let w = num_or (map_of (fst maps) n) (defaultOdds cfg);
          placeOdds = map_of (snd maps) n
      in \<lparr>horseNumber = n, winOdds = w,
          placeOddsMin = num_or (map_option fst placeOdds) (w / 3),
          placeOddsMax = num_or (map_option snd placeOdds) (w / 2)\<rparr>)"

definition scanOdds :: "ustring \<Rightarrow> odds_maps" where
  "scanOdds text = oddsLoop NoSection (filter (\<lambda>line. trim line \<noteq> []) (split_nl text)) ([], [])"

definition combineOdds :: "ParserConfig \<Rightarrow> odds_maps \<Rightarrow> OddsData list" where
  "combineOdds cfg maps =
     sort_key horseNumber
       (map (oddsRecord cfg maps) (new_Set (map fst (fst maps) @ map fst (snd maps))))"

text \<open>
  \<^verbatim>\<open>parseOdds(text)\<close>. Nothing in the body raises, so the handler is never entered; the
  arrays \<^verbatim>\<open>errors\<close> and \<^verbatim>\<open>warnings\<close> are returned as they were created.
\<close>

definition parseOdds :: "ParserConfig \<Rightarrow> ustring \<Rightarrow> OddsData list ParseResult" where
  "parseOdds cfg text =
     \<lparr>success = True, data = Some (combineOdds cfg (scanOdds text)), errors = [], warnings = []\<rparr>"

subsection \<open>Validation\<close>

text \<open>The values \<^verbatim>\<open>validateParsedData\<close> can be handed (its parameter is \<^verbatim>\<open>unknown\<close>).\<close>

datatype jsval =
    JUndefined
  | JNull
  | JBool bool
  | JNum rat
  | JStr ustring
  | JArr "jsval list"
  | JObj "(string \<times> jsval) list"

datatype validation_msg = DataInvalid | VenueRequired | DistanceOutOfRange | RaceNumberOutOfRange

record ValidationError =
  v_field :: string
  v_message :: validation_msg
  v_value :: jsval

record ValidationResult =
  isValid :: bool
  v_errors :: "ValidationError list"

text \<open>
  \<^verbatim>\<open>'k' in data\<close> followed by \<^verbatim>\<open>data.k\<close>, for the three keys the validator reads; an
  array has none of them.
\<close>

fun js_prop :: "jsval \<Rightarrow> string \<Rightarrow> jsval option" where
  "js_prop (JObj kvs) k = map_of kvs k"
| "js_prop v k = None"

text \<open>
  \<^verbatim>\<open>validateParsedData(data)\<close>: anything falsy or not an object is invalid; of an
  object, the venue (a string), the distance and the race number (numbers) are checked when
  present.
\<close>

definition validateParsedData :: "jsval \<Rightarrow> ValidationResult" where
  "validateParsedData d =
     (if d = JUndefined \<or> d = JNull \<or> d = JBool False \<or> d = JNum 0 \<or> d = JStr []
         \<or> (case d of JArr _ \<Rightarrow> False | JObj _ \<Rightarrow> False | _ \<Rightarrow> True)
      then \<lparr>isValid = False,
            v_errors = [\<lparr>v_field = ''data'', v_message = DataInvalid, v_value = d\<rparr>]\<rparr>
      else
        (let e1 = (case js_prop d ''venue'' of
                     Some (JStr v) \<Rightarrow>
                       if v = [] \<or> length (trim v) = 0
                       then [\<lparr>v_field = ''venue'', v_message = VenueRequired,
                               v_value = JStr v\<rparr>]
                       else []
                   | _ \<Rightarrow> []);
             e2 = (case js_prop d ''distance'' of
                     Some (JNum x) \<Rightarrow>
                       if x < 1000 \<or> x > 4000
                       then [\<lparr>v_field = ''distance'', v_message = DistanceOutOfRange,
                               v_value = JNum x\<rparr>]
                       else []
                   | _ \<Rightarrow> []);
             e3 = (case js_prop d ''raceNumber'' of
                     Some (JNum x) \<Rightarrow>
                       if x < 1 \<or> x > 12
                       then [\<lparr>v_field = ''raceNumber'', v_message = RaceNumberOutOfRange,
                               v_value = JNum x\<rparr>]
                       else []
                   | _ \<Rightarrow> [])
         in \<lparr>isValid = (e1 @ e2 @ e3 = []), v_errors = e1 @ e2 @ e3\<rparr>))"

section \<open>The line-oriented parser\<close>

text \<open>
  The earlier version of \<^verbatim>\<open>NetKeibaParser\<close>, which reads one horse and one odds entry
  per line. Its functions carry the suffix \<open>_legacy\<close>; the helpers and
  \<^verbatim>\<open>validateParsedData\<close> are the same in both versions.
\<close>

subsection \<open>Race information\<close>

definition venue_rx :: rx where
  "venue_rx = Grp 1 (alts (map Str jp_venues))"

definition title_rx :: rx where
  "title_rx = cats [Grp 1 (cats [Plus digit, Str (asc ''R''), Plus space]), Grp 2 (Plus nonspace)]"

definition distance_rx :: rx where
  "distance_rx = cats [Grp 1 (alts [Str jp_shiba, Str jp_dirt]), Grp 2 (Plus digit), Str (asc ''m'')]"

definition condition_rx :: rx where
  "condition_rx = Grp 1 (alts [Str jp_ryo, Str jp_yayaomo, Str jp_omo, Str jp_furyo])"

definition class_rx :: rx where
  "class_rx =
     Grp 1 (alts [Cat (Str (asc ''G'')) (Chars False [(0x31, 0x33)]), Str (asc ''Listed''),
                  Str jp_open, Str (jp_class 3), Str (jp_class 2), Str (jp_class 1),
                  Str jp_maiden])"

definition date_rx :: rx where
  "date_rx =
     cats [Grp 1 (cats [digit, digit, digit, digit]), Str jp_nen, Grp 2 (Cat digit (Opt digit)),
           Str jp_gatsu, Grp 3 (Cat digit (Opt digit)), Str jp_nichi]"

text \<open>
  \<^verbatim>\<open>parseRaceInfo(text)\<close> of the line-oriented version, in the same three parts.
  Nothing in the body of its \<^verbatim>\<open>try\<close> raises. The clock is read only when no date is
  found.
\<close>

definition raceErrors_legacy :: "ustring \<Rightarrow> ParseError list" where
  "raceErrors_legacy text =
     (if js_match venue_rx text = None then [race_error ''venue'' VenueNotFound text] else []) @
     (if js_match raceNumber_rx text = None
      then [race_error ''raceNumber'' RaceNumberNotFound text] else []) @
     (if js_match title_rx text = None then [race_error ''title'' RaceTitleNotFound text] else []) @
     (if js_match distance_rx text = None
      then [race_error ''distance'' DistanceNotFound text] else []) @
     (if js_match date_rx text = None then [race_error ''date'' DateNotFound text] else [])"

definition raceWarnings_legacy :: "ustring \<Rightarrow> msg list" where
  "raceWarnings_legacy text =
     (if js_match condition_rx text = None then [ConditionDefaulted] else []) @
     (if js_match class_rx text = None then [ClassDefaulted] else [])"

definition buildRaceInfo_legacy :: "nat \<Rightarrow> ustring \<Rightarrow> RaceInfo" where
  "buildRaceInfo_legacy now text =
     (let venueMatch = js_match venue_rx text;
          raceNumberMatch = js_match raceNumber_rx text;
          titleMatch = js_match title_rx text;
          distanceMatch = js_match distance_rx text;
          conditionMatch = js_match condition_rx text;
          classMatch = js_match class_rx text;
          dateMatch = js_match date_rx text
      in \<lparr>venue = group_or venueMatch 1 jp_fumei,
          raceNumber = (case raceNumberMatch of Some c \<Rightarrow> parseInt (grp c 1) | None \<Rightarrow> 0),
          title = group_or titleMatch 2 jp_fumei,
          distance = (case distanceMatch of Some c \<Rightarrow> parseInt (grp c 2) | None \<Rightarrow> 0),
          surface = parseSurface (group_or distanceMatch 1 jp_shiba),
          condition = parseTrackCondition (group_or conditionMatch 1 jp_ryo),
          raceClass = parseRaceClass (group_or classMatch 1 jp_open),
          date = (case dateMatch of
                    Some c \<Rightarrow> DateOf (int (parseInt (grp c 1))) (int (parseInt (grp c 2)) - 1)
                                      (int (parseInt (grp c 3)))
                  | None \<Rightarrow> DateNow now)\<rparr>)"

definition parseRaceInfo_legacy :: "ParserConfig \<Rightarrow> nat \<Rightarrow> ustring \<Rightarrow> RaceInfo ParseResult" where
  "parseRaceInfo_legacy cfg now text =
     (let errs = raceErrors_legacy text;
          warns = raceWarnings_legacy text;
          failed = \<lparr>success = False, data = None, errors = errs, warnings = warns\<rparr>
      in if errs \<noteq> [] \<and> strictMode cfg then failed
         else if errs \<noteq> [] \<and>
                 filter (\<lambda>e. field e = ''venue'' \<or> field e = ''raceNumber''
                              \<or> field e = ''distance'') errs \<noteq> [] then failed
         else \<lparr>success = True, data = Some (buildRaceInfo_legacy now text), errors = errs,
               warnings = warns\<rparr>)"

subsection \<open>The roster\<close>

text \<open>The pattern of a horse line: number, name, gender and age, weight, jockey, trainer.\<close>

definition horseLine_rx :: rx where
  "horseLine_rx =
     cats [Bol, Grp 1 (Plus digit), Plus space, Grp 2 (Plus nonspace), Plus space,
           Grp 3 (alts [Str jp_osu, Str jp_mesu, Str jp_sen]), Grp 4 (Plus digit), Plus space,
           Grp 5 decimal, Plus space, Grp 6 (Plus nonspace), Plus space, Grp 7 (Plus nonspace)]"

definition parseHorseLine :: "ustring \<Rightarrow> nat \<Rightarrow> js_error + HorseData" where
  "parseHorseLine line lineNum =
     (case js_match horseLine_rx line of
        None \<Rightarrow> Inl (Error (HorseLineMalformed line))
      | Some c \<Rightarrow>
          Inr \<lparr>number = parseInt (grp c 1), name = trim (grp c 2), age = parseInt (grp c 4),
               gender = parseGender (grp c 3), weight = parseFloat (grp c 5),
               jockeyName = trim (grp c 6), trainerName = trim (grp c 7)\<rparr>)"

fun lineLoop :: "ParserConfig \<Rightarrow> nat \<Rightarrow> ustring list \<Rightarrow> roster_state \<Rightarrow> roster_state" where
  "lineLoop cfg i [] st = st"
| "lineLoop cfg i (l # rest) st =
     (let line = trim l in
      if line = [] then lineLoop cfg (i + 1) rest st
      else
        (case parseHorseLine line (i + 1) of
           Inr horse \<Rightarrow> lineLoop cfg (i + 1) rest (st\<lparr>rs_horses := rs_horses st @ [horse]\<rparr>)
         | Inl err \<Rightarrow>
            (let parseError = \<lparr>errType = HORSE_DATA, field = ''horseLine'',
                                message = HorseLineFailed (i + 1) (error_message err),
                                rawData = Some line, lineNumber = Some (i + 1)\<rparr>
             in if skipInvalidHorses cfg
                then lineLoop cfg (i + 1) rest
                       (st\<lparr>rs_warnings := rs_warnings st @ [message parseError]\<rparr>)
                else lineLoop cfg (i + 1) rest
                       (st\<lparr>rs_errors := rs_errors st @ [parseError]\<rparr>))))"

definition nonblank_lines :: "ustring \<Rightarrow> ustring list" where
  "nonblank_lines text = filter (\<lambda>line. trim line \<noteq> []) (split_nl text)"

definition parseHorseDataInternal_legacy ::
  "ParserConfig \<Rightarrow> ustring \<Rightarrow> HorseData list ParseResult" where
  "parseHorseDataInternal_legacy cfg text =
     roster_result cfg text (lineLoop cfg 0 (nonblank_lines text) roster_init)"

definition parseHorseData_legacy :: "ParserConfig \<Rightarrow> ustring \<Rightarrow> js_error + HorseDataForm list"
  where
  "parseHorseData_legacy cfg text = formResult (parseHorseDataInternal_legacy cfg text)"

subsection \<open>The odds\<close>

text \<open>
  \<^verbatim>\<open>/^(\d+)\s+(\d+(?:\.\d+)?)\s+(\d+(?:\.\d+)?)-(\d+(?:\.\d+)?)/\<close> and, for a line with
  win odds only, \<^verbatim>\<open>/^(\d+)\s+(\d+(?:\.\d+)?)/\<close>.
\<close>

definition oddsLine_rx :: rx where
  "oddsLine_rx =
     cats [Bol, Grp 1 (Plus digit), Plus space, Grp 2 decimal, Plus space, Grp 3 decimal,
           Str (asc ''-''), Grp 4 decimal]"

definition simpleOddsLine_rx :: rx where
  "simpleOddsLine_rx = cats [Bol, Grp 1 (Plus digit), Plus space, Grp 2 decimal]"

definition parseOddsLine :: "ustring \<Rightarrow> nat \<Rightarrow> js_error + OddsData" where
  "parseOddsLine line lineNum =
     (case js_match oddsLine_rx line of
        None \<Rightarrow>
          (case js_match simpleOddsLine_rx line of
             Some c \<Rightarrow>
               Inr \<lparr>horseNumber = parseInt (grp c 1), winOdds = parseFloat (grp c 2),
                    placeOddsMin = parseFloat (grp c 2) / 3,
                    placeOddsMax = parseFloat (grp c 2) / 2\<rparr>
           | None \<Rightarrow> Inl (Error (OddsLineMalformed line)))
      | Some c \<Rightarrow>
          Inr \<lparr>horseNumber = parseInt (grp c 1), winOdds = parseFloat (grp c 2),
               placeOddsMin = parseFloat (grp c 3), placeOddsMax = parseFloat (grp c 4)\<rparr>)"

text \<open>The loop over the lines: the odds and the warnings collected so far.\<close>

fun oddsLineLoop :: "nat \<Rightarrow> ustring list \<Rightarrow> OddsData list \<times> msg list \<Rightarrow> OddsData list \<times> msg list"
  where
  "oddsLineLoop i [] acc = acc"
| "oddsLineLoop i (l # rest) acc =
     (let line = trim l in
      if line = [] then oddsLineLoop (i + 1) rest acc
      else
        (case parseOddsLine line (i + 1) of
           Inr odds \<Rightarrow> oddsLineLoop (i + 1) rest (fst acc @ [odds], snd acc)
         | Inl err \<Rightarrow>
             oddsLineLoop (i + 1) rest
               (fst acc, snd acc @ [OddsLineFailed (i + 1) (error_message err)])))"

definition parseOdds_legacy :: "ParserConfig \<Rightarrow> ustring \<Rightarrow> OddsData list ParseResult" where
  "parseOdds_legacy cfg text =
     (let r = oddsLineLoop 0 (nonblank_lines text) ([], [])
      in \<lparr>success = True, data = Some (fst r), errors = [], warnings = snd r\<rparr>)"


section \<open>The outcome of each fragment\<close>

text \<open>
  To state what the roster extractors do with each fragment: the fragments of a roster with
  their positions (counted from 1, as in the messages) and what the per-fragment parser
  returns for them. \<open>outcomesFrom i\<close> numbers the fragments from \<open>i + 1\<close>.
\<close>

type_synonym outcome = "nat \<times> ustring \<times> (js_error + HorseData)"

definition outcomesFrom :: "nat \<Rightarrow> ustring list \<Rightarrow> outcome list" where
  "outcomesFrom i blocks =
     map (\<lambda>(j, b). (j + 1, b, parseHorseBlock b (j + 1))) (enumerate i blocks)"

definition blockOutcomes :: "ustring \<Rightarrow> outcome list" where
  "blockOutcomes text = outcomesFrom 0 (splitIntoHorseBlocks text)"

definition lineOutcomesFrom :: "nat \<Rightarrow> ustring list \<Rightarrow> outcome list" where
  "lineOutcomesFrom i lines =
     map (\<lambda>(j, l). (j + 1, trim l, parseHorseLine (trim l) (j + 1))) (enumerate i lines)"

definition lineOutcomes :: "ustring \<Rightarrow> outcome list" where
  "lineOutcomes text = lineOutcomesFrom 0 (nonblank_lines text)"

text \<open>The records of the fragments that were parsed, in order.\<close>

definition parsedHorses :: "outcome list \<Rightarrow> HorseData list" where
  "parsedHorses outs =
     List.map_filter (\<lambda>(i, b, r). case r of Inr h \<Rightarrow> Some h | Inl e \<Rightarrow> None) outs"

text \<open>
  The message and the error record of each fragment that failed, in order; \<open>mk\<close> is the
  template of the message and \<open>f\<close> the field name of the version at hand.
\<close>

definition failureMessages :: "(nat \<Rightarrow> msg \<Rightarrow> msg) \<Rightarrow> outcome list \<Rightarrow> msg list" where
  "failureMessages mk outs =
     List.map_filter
       (\<lambda>(i, b, r). case r of Inl e \<Rightarrow> Some (mk i (error_message e)) | Inr h \<Rightarrow> None) outs"

definition failureErrors ::
  "string \<Rightarrow> (nat \<Rightarrow> msg \<Rightarrow> msg) \<Rightarrow> outcome list \<Rightarrow> ParseError list" where
  "failureErrors f mk outs =
     List.map_filter
       (\<lambda>(i, b, r). case r of
            Inl e \<Rightarrow> Some \<lparr>errType = HORSE_DATA, field = f, message = mk i (error_message e),
                            rawData = Some b, lineNumber = Some i\<rparr>
          | Inr h \<Rightarrow> None) outs"

text \<open>
  A fragment triggers an assignment to an undeclared identifier when one of its lines matches
  the popularity-odds pattern or the body-weight pattern.
\<close>

definition triggersUndeclared :: "ustring \<Rightarrow> bool" where
  "triggersUndeclared block \<longleftrightarrow>
     (\<exists>l \<in> set (split_nl block). js_test oddsPattern l \<or> js_test weightPattern l)"

text \<open>The horse number on the marker line of a fragment.\<close>

definition markerNumber :: "ustring \<Rightarrow> nat option" where
  "markerNumber block =
     map_option (\<lambda>fh. parseInt (grp fh 2)) (js_match frameHorse_rx (firstLine (split_nl block)))"

text \<open>A horse record as the JavaScript object it is.\<close>

definition horseToJs :: "HorseData \<Rightarrow> jsval" where
  "horseToJs h =
     JObj [(''number'', JNum (of_nat (number h))), (''name'', JStr (name h)),
           (''age'', JNum (of_nat (age h))),
           (''gender'', JStr (asc (convertGenderToString (gender h)))),
           (''weight'', JNum (weight h)), (''jockeyName'', JStr (jockeyName h)),
           (''trainerName'', JStr (trainerName h))]"

text \<open>The error and the warning that follow the loop.\<close>

definition noHorsesError :: "ustring \<Rightarrow> HorseData list \<Rightarrow> ParseError list" where
  "noHorsesError text hs =
     (if hs = []
      then [\<lparr>errType = HORSE_DATA, field = ''general'', message = NoValidHorses,
              rawData = Some text, lineNumber = None\<rparr>]
      else [])"

definition tooManyWarning :: "ParserConfig \<Rightarrow> HorseData list \<Rightarrow> msg list" where
  "tooManyWarning cfg hs =
     (if length hs > maxHorses cfg then [TooManyHorses (maxHorses cfg)] else [])"

section \<open>Inputs used in the examples\<close>

text \<open>
  A header in the layout the layout-keyed parser expects: the race name on the first line,
  then post time, surface with distance and track condition, then the meeting with the
  venue (Sapporo) and the class. It has no race-number marker.
\<close>

definition header_layout :: ustring where
  "header_layout =
     asc ''Cup'' @ [0x0A] @
     asc ''15:35'' @ jp_hasso @ asc '' / '' @ jp_shiba @ asc ''1200m / '' @ jp_baba @ jp_ryo @ [0x0A] @
     asc ''2'' @ jp_kai @ [0x672D, 0x5E4C] @ asc ''2'' @ jp_nichime @ asc '' G3''"

text \<open>
  Headers for the line-oriented parser: venue (Tokyo), race number, name, surface and
  distance; the same without the race number; and the first with a date.
\<close>

definition header_legacy :: ustring where
  "header_legacy = [0x6771, 0x4EAC] @ asc '' 11R Derby '' @ jp_shiba @ asc ''2400m''"

definition header_legacy_unnumbered :: ustring where
  "header_legacy_unnumbered = [0x6771, 0x4EAC] @ asc '' Derby '' @ jp_shiba @ asc ''2400m''"

definition header_legacy_dated :: ustring where
  "header_legacy_dated =
     header_legacy @ asc '' 2024'' @ jp_nen @ asc ''5'' @ jp_gatsu @ asc ''26'' @ jp_nichi"

text \<open>The default configuration with \<^verbatim>\<open>skipInvalidHorses: false\<close>.\<close>

definition keepInvalidConfig :: ParserConfig where
  "keepInvalidConfig = defaultConfig\<lparr>skipInvalidHorses := False\<rparr>"

text \<open>
  Rosters for the layout-keyed parser. A fragment is a marker line followed by the lines
  of the horse; \<open>fragment m l\<close> is the block cut for a marker \<open>m\<close> followed by the single
  line \<open>l\<close>, and \<open>plainHorse\<close> the record of a fragment that has a name and nothing else.
  \<open>roster_five\<close> has five fragments of which the third has no name; \<open>roster_dup\<close> has two
  fragments with the horse number 1; \<open>roster_popular\<close> and \<open>roster_weighed\<close> have one
  fragment with a popularity-odds line and a body-weight line respectively.
\<close>

definition fragment :: "string \<Rightarrow> string \<Rightarrow> ustring" where
  "fragment marker rest = asc marker @ [0x0A] @ asc rest @ [0x0A] @ asc rest"

definition plainHorse :: "nat \<Rightarrow> string \<Rightarrow> HorseData" where
  "plainHorse n nm = \<lparr>number = n, name = asc nm, age = 4, gender = MALE, weight = 55,
                       jockeyName = [], trainerName = []\<rparr>"

definition roster_five :: ustring where
  "roster_five =
     asc ''1 1'' @ [0x0A] @ asc ''Alpha'' @ [0x0A] @ asc ''1 2'' @ [0x0A] @ asc ''Bravo'' @ [0x0A] @
     asc ''2 3'' @ [0x0A] @ asc ''123'' @ [0x0A] @ asc ''2 4'' @ [0x0A] @ asc ''Delta'' @ [0x0A] @
     asc ''3 5'' @ [0x0A] @ asc ''Echo''"

definition roster_dup :: ustring where
  "roster_dup =
     asc ''1 1'' @ [0x0A] @ asc ''Alpha'' @ [0x0A] @ asc ''1 1'' @ [0x0A] @ asc ''Bravo''"

definition popular_line :: ustring where
  "popular_line = asc ''3.5(1'' @ jp_ninki @ asc '')''"

definition roster_popular :: ustring where
  "roster_popular = asc ''1 7'' @ [0x0A] @ asc ''Alpha'' @ [0x0A] @ popular_line"

definition block_popular :: ustring where
  "block_popular =
     asc ''1 7'' @ [0x0A] @ asc ''Alpha'' @ [0x0A] @ asc ''Alpha'' @ [0x0A] @ popular_line"

definition roster_weighed :: ustring where
  "roster_weighed = asc ''1 7'' @ [0x0A] @ asc ''Alpha'' @ [0x0A] @ asc ''480kg(+2)''"

definition block_weighed :: ustring where
  "block_weighed =
     asc ''1 7'' @ [0x0A] @ asc ''Alpha'' @ [0x0A] @ asc ''Alpha'' @ [0x0A] @ asc ''480kg(+2)''"

text \<open>A roster for the line-oriented parser: of its three lines only the second is a horse.\<close>

definition horse_line :: ustring where
  "horse_line = asc ''1 Alpha '' @ jp_osu @ asc ''3 57.0 Jock Trainer''"

definition roster_legacy :: ustring where
  "roster_legacy = asc ''no number'' @ [0x0A] @ horse_line @ [0x0A] @ asc ''bad line''"

definition legacyHorse :: HorseData where
  "legacyHorse = \<lparr>number = 1, name = asc ''Alpha'', age = 3, gender = MALE, weight = 57,
                   jockeyName = asc ''Jock'', trainerName = asc ''Trainer''\<rparr>"

text \<open>
  Odds blocks. \<open>odds_eight\<close> lists win odds for the horses 1 to 8 and place odds for the
  horses 1 to 4. In \<open>odds_unparsable\<close> the data line of the second marker has no number. In
  \<open>odds_inverted\<close> the odds are below 1 and the place range is inverted.
  \<open>odds_place_only\<close> has place odds and no win odds. \<open>odds_legacy\<close> is a block for the
  line-oriented parser with one unparsable line and one inverted range.
\<close>

definition odds_pair :: "string \<Rightarrow> string \<Rightarrow> ustring" where
  "odds_pair marker dataLine = asc marker @ [0x0A] @ asc dataLine @ [0x0A]"

definition odds_eight :: ustring where
  "odds_eight =
     jp_tansho @ [0x0A] @
     odds_pair ''1 1'' ''A 2.4'' @ odds_pair ''1 2'' ''B 3.6'' @ odds_pair ''2 3'' ''C 4.8'' @
     odds_pair ''2 4'' ''D 6'' @ odds_pair ''3 5'' ''E 12'' @ odds_pair ''3 6'' ''F 18'' @
     odds_pair ''4 7'' ''G 24'' @ odds_pair ''4 8'' ''H 30'' @
     jp_fukusho @ [0x0A] @
     odds_pair ''1 1'' ''A 1.1 - 1.3'' @ odds_pair ''1 2'' ''B 1.2 - 1.5'' @
     odds_pair ''2 3'' ''C 1.4 - 2'' @ odds_pair ''2 4'' ''D 1.5 - 2.5''"

definition odds_unparsable :: ustring where
  "odds_unparsable =
     jp_tansho @ [0x0A] @ odds_pair ''1 1'' ''Alpha 3.2'' @ odds_pair ''1 2'' ''Bravo ---''"

definition odds_inverted :: ustring where
  "odds_inverted =
     jp_tansho @ [0x0A] @ odds_pair ''1 1'' ''Alpha 0.5'' @
     jp_fukusho @ [0x0A] @ odds_pair ''1 1'' ''Alpha 0.5 - 0.2''"

definition odds_place_only :: ustring where
  "odds_place_only = jp_fukusho @ [0x0A] @ odds_pair ''1 1'' ''Alpha 1.1 - 1.3''"

definition odds_legacy :: ustring where
  "odds_legacy = asc ''1 no odds'' @ [0x0A] @ asc ''2 0.5 3-2''"

text \<open>
  Two samples of the repository's own test data for the line-oriented parser: the header of
  the first test pattern (Tokyo, race 11, a G1 race over 2400 m of turf on firm ground, on
  26 May 2024) and the first line of its roster.
\<close>

definition sample_race_info_1 :: ustring where
  "sample_race_info_1 =
     [0x0A] @ [0x6771, 0x4EAC, 0x7AF6, 0x99AC, 0x5834] @ asc '' '' @ [0x7B2C] @ asc ''11R '' @
     [0x65E5, 0x672C, 0x30C0, 0x30FC, 0x30D3, 0x30FC] @ asc ''(G1) '' @ jp_shiba @ asc ''2400m '' @
     jp_ryo @ asc '' 2024'' @ jp_nen @ asc ''5'' @ jp_gatsu @ asc ''26'' @ jp_nichi @ [0x0A]"

definition sample_horse_line_1 :: ustring where
  "sample_horse_line_1 =
     asc ''1 '' @ [0x30C9, 0x30A6, 0x30C7, 0x30E5, 0x30FC, 0x30B9] @ asc '' '' @ jp_osu @
     asc ''3 57.0 '' @ [0x798F, 0x6C38, 0x7950, 0x4E00] @ asc '' '' @
     [0x53CB, 0x9053, 0x5EB7, 0x592B]"

text \<open>A result with the date of its record, if any, replaced by a fixed one.\<close>

definition eraseDate :: "RaceInfo ParseResult \<Rightarrow> RaceInfo ParseResult" where
  "eraseDate r = r\<lparr>data := map_option (\<lambda>info. info\<lparr>date := DateNow 0\<rparr>) (data r)\<rparr>"

section \<open>Properties\<close>

lemmas rx_defs = js_match_def js_test_def cats_def alts_def decimal_def digit_def space_def
  nonspace_def anychar_def asc_def ws_ranges_def remaining_def grp_def

lemmas jp_defs = jp_venues_def jp_shiba_def jp_dirt_def jp_ryo_def jp_yayaomo_def jp_omo_def
  jp_furyo_def jp_open_def jp_listed_def jp_class_def jp_maiden_def jp_shinba_def jp_fumei_def
  jp_hasso_def jp_baba_def jp_kai_def jp_nichime_def jp_nen_def jp_gatsu_def jp_nichi_def
  jp_ninki_def jp_miho_def jp_ritto_def jp_osu_def jp_mesu_def jp_sen_def jp_kyuyo_def
  jp_teppo_def jp_kagetsu_def jp_soume_def jp_view_replay_def jp_tansho_def jp_fukusho_def

lemmas race_defs = raceErrors_def raceWarnings_def raceNumberOf_def buildRaceInfo_def
  raceErrors_legacy_def raceWarnings_legacy_def buildRaceInfo_legacy_def titleLine_def trim_def
  is_ws_def raceDetails_rx_def meetingInfo_rx_def raceNumber_rx_def venue_rx_def title_rx_def
  distance_rx_def condition_rx_def class_rx_def date_rx_def race_error_def parseInt_def
  group_or_def or_else_def parseSurface_def parseTrackCondition_def parseRaceClass_def
  defaultConfig_def

subsection \<open>Race information\<close>

text \<open>
  C6. In the line-oriented parser, for every race-info block in which neither the venue
  pattern nor the distance-and-surface pattern matches, with \<open>strictMode = False\<close>,
  \<open>parseRaceInfo\<close> returns \<open>success = False\<close> and no record, and its errors contain a
  \<open>RACE_INFO\<close> error with field \<open>venue\<close> and one with field \<open>distance\<close>.
\<close>

theorem C6_critical_fields_abort:
  assumes "js_match venue_rx text = None" and "js_match distance_rx text = None"
    and "\<not> strictMode cfg"
  shows "success (parseRaceInfo_legacy cfg now text) = False \<and>
         data (parseRaceInfo_legacy cfg now text) = None \<and>
         (\<exists>e \<in> set (errors (parseRaceInfo_legacy cfg now text)).
            errType e = RACE_INFO \<and> field e = ''venue'') \<and>
         (\<exists>e \<in> set (errors (parseRaceInfo_legacy cfg now text)).
            errType e = RACE_INFO \<and> field e = ''distance'')"
  using assms by (simp add: parseRaceInfo_legacy_def raceErrors_legacy_def Let_def race_error_def)

theorem C6_witness:
  "js_match venue_rx (asc ''Derby 2400'') = None \<and>
   js_match distance_rx (asc ''Derby 2400'') = None \<and>
   \<not> strictMode defaultConfig \<and>
   success (parseRaceInfo_legacy defaultConfig 0 (asc ''Derby 2400'')) = False \<and>
   data (parseRaceInfo_legacy defaultConfig 0 (asc ''Derby 2400'')) = None \<and>
   (\<exists>e \<in> set (errors (parseRaceInfo_legacy defaultConfig 0 (asc ''Derby 2400''))).
      errType e = RACE_INFO \<and> field e = ''venue'') \<and>
   (\<exists>e \<in> set (errors (parseRaceInfo_legacy defaultConfig 0 (asc ''Derby 2400''))).
      errType e = RACE_INFO \<and> field e = ''distance'')"
proof -
  have v: "js_match venue_rx (asc ''Derby 2400'') = None"
    by (simp add: venue_rx_def jp_venues_def rx_defs)
  have d: "js_match distance_rx (asc ''Derby 2400'') = None"
    by (simp add: distance_rx_def jp_shiba_def jp_dirt_def rx_defs)
  have s: "\<not> strictMode defaultConfig"
    by (simp add: defaultConfig_def)
  show ?thesis
    using v d s C6_critical_fields_abort [OF v d s, of 0] by simp
qed


text \<open>The two parsers on the example headers.\<close>

lemma layout_eval:
  "parseRaceInfo defaultConfig now header_layout =
     \<lparr>success = True,
      data = Some \<lparr>venue = [0x672D, 0x5E4C], raceNumber = 11, title = asc ''Cup'',
                   distance = 1200, surface = TURF, condition = FIRM, raceClass = G3,
                   date = DateNow now\<rparr>,
      errors = [], warnings = [RaceNumberDefaulted]\<rparr>"
  by (simp add: parseRaceInfo_def header_layout_def race_defs jp_defs rx_defs Let_def)

lemma legacy_eval:
  "parseRaceInfo_legacy defaultConfig now header_legacy =
     \<lparr>success = True,
      data = Some \<lparr>venue = [0x6771, 0x4EAC], raceNumber = 11, title = asc ''Derby'',
                   distance = 2400, surface = TURF, condition = FIRM, raceClass = OPEN,
                   date = DateNow now\<rparr>,
      errors = [race_error ''date'' DateNotFound header_legacy],
      warnings = [ConditionDefaulted, ClassDefaulted]\<rparr>"
  by (simp add: parseRaceInfo_legacy_def header_legacy_def race_defs jp_defs rx_defs Let_def)

lemma legacy_unnumbered_eval:
  "parseRaceInfo_legacy defaultConfig now header_legacy_unnumbered =
     \<lparr>success = False, data = None,
      errors = [race_error ''raceNumber'' RaceNumberNotFound header_legacy_unnumbered,
                race_error ''title'' RaceTitleNotFound header_legacy_unnumbered,
                race_error ''date'' DateNotFound header_legacy_unnumbered],
      warnings = [ConditionDefaulted, ClassDefaulted]\<rparr>"
  by (simp add: parseRaceInfo_legacy_def header_legacy_unnumbered_def race_defs jp_defs
        rx_defs Let_def)

lemma legacy_dated_eval:
  "parseRaceInfo_legacy defaultConfig now header_legacy_dated =
     \<lparr>success = True,
      data = Some \<lparr>venue = [0x6771, 0x4EAC], raceNumber = 11, title = asc ''Derby'',
                   distance = 2400, surface = TURF, condition = FIRM, raceClass = OPEN,
                   date = DateOf 2024 4 26\<rparr>,
      errors = [], warnings = [ConditionDefaulted, ClassDefaulted]\<rparr>"
  by (simp add: parseRaceInfo_legacy_def header_legacy_dated_def header_legacy_def race_defs
        jp_defs rx_defs Let_def)

text \<open>
  The model agrees with what the unit tests of the repository expect for these samples.
\<close>

lemma sample_race_info_1_eval:
  "parseRaceInfo_legacy defaultConfig now sample_race_info_1 =
     \<lparr>success = True,
      data = Some \<lparr>venue = [0x6771, 0x4EAC], raceNumber = 11,
                   title = [0x65E5, 0x672C, 0x30C0, 0x30FC, 0x30D3, 0x30FC] @ asc ''(G1)'',
                   distance = 2400, surface = TURF, condition = FIRM, raceClass = G1,
                   date = DateOf 2024 4 26\<rparr>,
      errors = [], warnings = []\<rparr>"
  by (simp add: parseRaceInfo_legacy_def sample_race_info_1_def race_defs jp_defs rx_defs
        Let_def)

lemma sample_horse_line_1_eval:
  "parseHorseLine sample_horse_line_1 1 =
     Inr \<lparr>number = 1, name = [0x30C9, 0x30A6, 0x30C7, 0x30E5, 0x30FC, 0x30B9], age = 3,
          gender = MALE, weight = 57, jockeyName = [0x798F, 0x6C38, 0x7950, 0x4E00],
          trainerName = [0x53CB, 0x9053, 0x5EB7, 0x592B]\<rparr>"
  by (simp add: sample_horse_line_1_def parseHorseLine_def horseLine_rx_def parseGender_def
        trim_def is_ws_def parseInt_def parseFloat_def jp_defs rx_defs)

text \<open>The parts of the results of the two parsers.\<close>

lemma raceErrors_fields:
  "e \<in> set (raceErrors text) \<Longrightarrow>
     errType e = RACE_INFO \<and>
     (field e = ''title'' \<or> field e = ''raceDetails'' \<or> field e = ''meetingInfo'')"
  by (auto simp add: raceErrors_def race_error_def split: if_splits)

lemma raceErrors_all_critical:
  "filter (\<lambda>e. field e = ''title'' \<or> field e = ''raceDetails'' \<or> field e = ''meetingInfo'')
     (raceErrors text) = raceErrors text"
  by (simp add: raceErrors_def race_error_def)

lemma raceErrors_empty:
  "raceErrors text = [] \<longleftrightarrow>
     titleLine (split_nl text) \<noteq> [] \<and> js_match raceDetails_rx text \<noteq> None \<and>
     js_match meetingInfo_rx text \<noteq> None"
  by (simp add: raceErrors_def)

lemma parseRaceInfo_success:
  "success (parseRaceInfo cfg now text) \<longleftrightarrow> raceErrors text = []"
  by (simp add: parseRaceInfo_def Let_def raceErrors_all_critical)

lemma parseRaceInfo_errors: "errors (parseRaceInfo cfg now text) = raceErrors text"
  by (simp add: parseRaceInfo_def Let_def)

lemma parseRaceInfo_warnings: "warnings (parseRaceInfo cfg now text) = raceWarnings text"
  by (simp add: parseRaceInfo_def Let_def)

lemma parseRaceInfo_data:
  "data (parseRaceInfo cfg now text) =
     (if raceErrors text = [] then Some (buildRaceInfo now text) else None)"
  by (simp add: parseRaceInfo_def Let_def raceErrors_all_critical)

lemma parseRaceInfo_legacy_errors:
  "errors (parseRaceInfo_legacy cfg now text) = raceErrors_legacy text"
  by (simp add: parseRaceInfo_legacy_def Let_def)

lemma parseRaceInfo_legacy_warnings:
  "warnings (parseRaceInfo_legacy cfg now text) = raceWarnings_legacy text"
  by (simp add: parseRaceInfo_legacy_def Let_def)

lemma raceNumber_error_legacy:
  "js_match raceNumber_rx text = None \<Longrightarrow>
     race_error ''raceNumber'' RaceNumberNotFound text \<in> set (raceErrors_legacy text)"
  by (simp add: raceErrors_legacy_def)

lemma parseRaceInfo_legacy_unnumbered:
  "js_match raceNumber_rx text = None \<Longrightarrow> \<not> success (parseRaceInfo_legacy cfg now text)"
  by (simp add: parseRaceInfo_legacy_def Let_def raceErrors_legacy_def race_error_def)

text \<open>
  C5, as stated, fails: in the line-oriented parser a header without a race-number marker
  gets an error with field \<open>raceNumber\<close>, no warning about a default, and no record; the
  same header with the marker \<open>11R\<close> is parsed successfully, so the absence of the marker
  alone makes the call unsuccessful.
\<close>

theorem C5_counterexample:
  "js_match raceNumber_rx header_legacy_unnumbered = None \<and>
   \<not> success (parseRaceInfo_legacy defaultConfig 0 header_legacy_unnumbered) \<and>
   data (parseRaceInfo_legacy defaultConfig 0 header_legacy_unnumbered) = None \<and>
   race_error ''raceNumber'' RaceNumberNotFound header_legacy_unnumbered
     \<in> set (errors (parseRaceInfo_legacy defaultConfig 0 header_legacy_unnumbered)) \<and>
   RaceNumberDefaulted
     \<notin> set (warnings (parseRaceInfo_legacy defaultConfig 0 header_legacy_unnumbered)) \<and>
   success (parseRaceInfo_legacy defaultConfig 0 header_legacy)"
proof -
  have "js_match raceNumber_rx header_legacy_unnumbered = None"
    by (simp add: header_legacy_unnumbered_def raceNumber_rx_def jp_defs rx_defs)
  then show ?thesis
    by (simp add: legacy_unnumbered_eval legacy_eval)
qed

text \<open>
  C5, amended. In the layout-keyed parser, for every race-info block without a race-number
  marker, the warning about the default is emitted, no error has the field \<open>raceNumber\<close>,
  a record that is returned has race number 11, and success depends on the title, the race
  details and the meeting information only. In the line-oriented parser the same absence is
  an error with field \<open>raceNumber\<close>, the call is unsuccessful and no such warning is
  emitted.
\<close>

theorem C5_race_number_default:
  assumes "js_match raceNumber_rx text = None"
  shows "RaceNumberDefaulted \<in> set (warnings (parseRaceInfo cfg now text)) \<and>
         (\<forall>e \<in> set (errors (parseRaceInfo cfg now text)). field e \<noteq> ''raceNumber'') \<and>
         (\<forall>info. data (parseRaceInfo cfg now text) = Some info \<longrightarrow> raceNumber info = 11) \<and>
         (success (parseRaceInfo cfg now text) \<longleftrightarrow>
            titleLine (split_nl text) \<noteq> [] \<and> js_match raceDetails_rx text \<noteq> None \<and>
            js_match meetingInfo_rx text \<noteq> None) \<and>
         \<not> success (parseRaceInfo_legacy cfg now text) \<and>
         (\<exists>e \<in> set (errors (parseRaceInfo_legacy cfg now text)).
            errType e = RACE_INFO \<and> field e = ''raceNumber'') \<and>
         RaceNumberDefaulted \<notin> set (warnings (parseRaceInfo_legacy cfg now text))"
proof -
  have w: "RaceNumberDefaulted \<in> set (warnings (parseRaceInfo cfg now text))"
    using assms by (simp add: parseRaceInfo_warnings raceWarnings_def)
  have e: "\<forall>e \<in> set (errors (parseRaceInfo cfg now text)). field e \<noteq> ''raceNumber''"
    by (auto simp add: parseRaceInfo_errors dest!: raceErrors_fields)
  have d: "\<forall>info. data (parseRaceInfo cfg now text) = Some info \<longrightarrow> raceNumber info = 11"
    using assms
    by (auto simp add: parseRaceInfo_data buildRaceInfo_def raceNumberOf_def Let_def
             split: if_splits)
  have s: "success (parseRaceInfo cfg now text) \<longleftrightarrow>
            titleLine (split_nl text) \<noteq> [] \<and> js_match raceDetails_rx text \<noteq> None \<and>
            js_match meetingInfo_rx text \<noteq> None"
    by (simp only: parseRaceInfo_success raceErrors_empty)
  have l1: "\<not> success (parseRaceInfo_legacy cfg now text)"
    using assms by (rule parseRaceInfo_legacy_unnumbered)
  have l2: "\<exists>e \<in> set (errors (parseRaceInfo_legacy cfg now text)).
              errType e = RACE_INFO \<and> field e = ''raceNumber''"
    using raceNumber_error_legacy [OF assms]
    by (auto simp add: parseRaceInfo_legacy_errors race_error_def intro!: bexI)
  have l3: "RaceNumberDefaulted \<notin> set (warnings (parseRaceInfo_legacy cfg now text))"
    by (simp add: parseRaceInfo_legacy_warnings raceWarnings_legacy_def)
  from w e d s l1 l2 l3 show ?thesis by blast
qed

theorem C5_witness:
  "js_match raceNumber_rx header_layout = None \<and>
   RaceNumberDefaulted \<in> set (warnings (parseRaceInfo defaultConfig 0 header_layout)) \<and>
   errors (parseRaceInfo defaultConfig 0 header_layout) = [] \<and>
   map_option raceNumber (data (parseRaceInfo defaultConfig 0 header_layout)) = Some 11 \<and>
   success (parseRaceInfo defaultConfig 0 header_layout) \<and>
   \<not> success (parseRaceInfo_legacy defaultConfig 0 header_layout)"
proof -
  have h: "js_match raceNumber_rx header_layout = None"
    by (simp add: header_layout_def raceNumber_rx_def jp_defs rx_defs)
  show ?thesis
    using h C5_race_number_default [OF h, of defaultConfig 0] by (simp add: layout_eval)
qed

subsection \<open>The clock\<close>

lemma buildRaceInfo_clock:
  "(buildRaceInfo ta text)\<lparr>date := d\<rparr> = (buildRaceInfo tb text)\<lparr>date := d\<rparr>"
  by (simp add: buildRaceInfo_def Let_def)

lemma buildRaceInfo_legacy_clock:
  "(buildRaceInfo_legacy ta text)\<lparr>date := d\<rparr> = (buildRaceInfo_legacy tb text)\<lparr>date := d\<rparr>"
  by (simp add: buildRaceInfo_legacy_def Let_def)

lemma buildRaceInfo_legacy_dated:
  "js_match date_rx text \<noteq> None \<Longrightarrow> buildRaceInfo_legacy ta text = buildRaceInfo_legacy tb text"
  by (auto simp add: buildRaceInfo_legacy_def Let_def)

text \<open>
  C2, as stated, fails: two successful calls of \<open>parseRaceInfo\<close> on the same header with
  the same configuration, made at different times, return records with different dates, in
  the layout-keyed parser and, for a header without a date, in the line-oriented one.
\<close>

theorem C2_counterexample:
  "success (parseRaceInfo defaultConfig 0 header_layout) \<and>
   success (parseRaceInfo defaultConfig 1 header_layout) \<and>
   map_option date (data (parseRaceInfo defaultConfig 0 header_layout)) = Some (DateNow 0) \<and>
   map_option date (data (parseRaceInfo defaultConfig 1 header_layout)) = Some (DateNow 1) \<and>
   parseRaceInfo defaultConfig 0 header_layout \<noteq> parseRaceInfo defaultConfig 1 header_layout \<and>
   success (parseRaceInfo_legacy defaultConfig 0 header_legacy) \<and>
   parseRaceInfo_legacy defaultConfig 0 header_legacy
     \<noteq> parseRaceInfo_legacy defaultConfig 1 header_legacy"
  by (simp add: layout_eval legacy_eval)

text \<open>
  C2, amended. The result of \<open>parseRaceInfo\<close> is determined by the configuration, the
  text and the clock, and the clock affects nothing but the date of the record: two calls on
  the same text with the same configuration agree on success, errors, warnings and every
  field of the record other than the date. In the line-oriented parser the two results are
  equal, date included, whenever the text contains a date. (The roster and odds extractors
  do not read the clock: they are functions of the configuration and the text.)
\<close>

theorem C2_only_date_reads_clock:
  "eraseDate (parseRaceInfo cfg t1 text) = eraseDate (parseRaceInfo cfg t2 text) \<and>
   eraseDate (parseRaceInfo_legacy cfg t1 text) = eraseDate (parseRaceInfo_legacy cfg t2 text) \<and>
   (js_match date_rx text \<noteq> None \<longrightarrow>
      parseRaceInfo_legacy cfg t1 text = parseRaceInfo_legacy cfg t2 text)"
proof -
  have a: "eraseDate (parseRaceInfo cfg t1 text) = eraseDate (parseRaceInfo cfg t2 text)"
    using buildRaceInfo_clock [where ta = t1 and tb = t2 and d = "DateNow 0"]
    by (simp add: parseRaceInfo_def eraseDate_def Let_def)
  have b: "eraseDate (parseRaceInfo_legacy cfg t1 text)
             = eraseDate (parseRaceInfo_legacy cfg t2 text)"
    using buildRaceInfo_legacy_clock [where ta = t1 and tb = t2 and d = "DateNow 0"]
    by (simp add: parseRaceInfo_legacy_def eraseDate_def Let_def)
  have c: "js_match date_rx text \<noteq> None \<longrightarrow>
      parseRaceInfo_legacy cfg t1 text = parseRaceInfo_legacy cfg t2 text"
    using buildRaceInfo_legacy_dated [where ta = t1 and tb = t2]
    by (simp add: parseRaceInfo_legacy_def Let_def)
  from a b c show ?thesis by blast
qed

theorem C2_witness:
  "js_match date_rx header_legacy_dated \<noteq> None \<and>
   parseRaceInfo_legacy defaultConfig 0 header_legacy_dated
     = parseRaceInfo_legacy defaultConfig 1 header_legacy_dated \<and>
   eraseDate (parseRaceInfo defaultConfig 0 header_layout)
     = eraseDate (parseRaceInfo defaultConfig 1 header_layout)"
proof -
  have h: "js_match date_rx header_legacy_dated \<noteq> None"
    by (simp add: header_legacy_dated_def header_legacy_def date_rx_def jp_defs rx_defs)
  show ?thesis
    using h C2_only_date_reads_clock [of defaultConfig 0 header_legacy_dated 1]
      C2_only_date_reads_clock [of defaultConfig 0 header_layout 1]
    by simp
qed


lemmas roster_defs = parseHorseBlock_def firstLine_def isNameCandidate_def isJockeyName_def
  frameHorse_rx_def frameHorseLine_rx_def nameChar_rx_def oddsPattern_def
  genderAgeColorPattern_def weightPattern_def jockeyName_rx_def runningStyle_rx_def
  trainerPattern_def parseGender_def splitIntoHorseBlocks_def horseLine_rx_def
  parseHorseLine_def nonblank_lines_def trim_def is_ws_def parseInt_def parseFloat_def

lemmas outcome_defs = parsedHorses_def failureMessages_def failureErrors_def noHorsesError_def
  tooManyWarning_def

subsection \<open>The roster\<close>

text \<open>Each loop in terms of the outcomes of the fragments.\<close>

lemma blockLoop_outcomes:
  "blockLoop cfg i blocks st =
     \<lparr>rs_horses = rs_horses st @ parsedHorses (outcomesFrom i blocks),
      rs_errors = rs_errors st @
        (if skipInvalidHorses cfg then []
         else failureErrors ''horseBlock'' HorseBlockFailed (outcomesFrom i blocks)),
      rs_warnings = rs_warnings st @
        (if skipInvalidHorses cfg
         then failureMessages HorseBlockFailed (outcomesFrom i blocks) else [])\<rparr>"
proof (induction blocks arbitrary: i st)
  case Nil
  then show ?case
    by (simp add: outcomesFrom_def outcome_defs)
next
  case (Cons b bs)
  show ?case
  proof (cases "parseHorseBlock b (Suc i)")
    case (Inl e)
    then show ?thesis
      using Cons.IH [of "Suc i"] by (simp add: outcomesFrom_def outcome_defs Let_def)
  next
    case (Inr h)
    then show ?thesis
      using Cons.IH [of "Suc i"] by (simp add: outcomesFrom_def outcome_defs)
  qed
qed

lemma lineLoop_outcomes:
  assumes "\<forall>l \<in> set lines. trim l \<noteq> []"
  shows "lineLoop cfg i lines st =
     \<lparr>rs_horses = rs_horses st @ parsedHorses (lineOutcomesFrom i lines),
      rs_errors = rs_errors st @
        (if skipInvalidHorses cfg then []
         else failureErrors ''horseLine'' HorseLineFailed (lineOutcomesFrom i lines)),
      rs_warnings = rs_warnings st @
        (if skipInvalidHorses cfg
         then failureMessages HorseLineFailed (lineOutcomesFrom i lines) else [])\<rparr>"
  using assms
proof (induction lines arbitrary: i st)
  case Nil
  then show ?case
    by (simp add: lineOutcomesFrom_def outcome_defs)
next
  case (Cons l ls)
  then have nb: "trim l \<noteq> []" and rest: "\<forall>l \<in> set ls. trim l \<noteq> []"
    by simp_all
  show ?case
  proof (cases "parseHorseLine (trim l) (Suc i)")
    case (Inl e)
    then show ?thesis
      using Cons.IH [OF rest, of "Suc i"] nb
      by (simp add: lineOutcomesFrom_def outcome_defs Let_def)
  next
    case (Inr h)
    then show ?thesis
      using Cons.IH [OF rest, of "Suc i"] nb
      by (simp add: lineOutcomesFrom_def outcome_defs Let_def)
  qed
qed

lemma nonblank_lines_nonblank: "\<forall>l \<in> set (nonblank_lines text). trim l \<noteq> []"
  by (simp add: nonblank_lines_def)

lemma parseHorseDataInternal_outcomes:
  "parseHorseDataInternal cfg text =
     \<lparr>success = ((if skipInvalidHorses cfg then []
                   else failureErrors ''horseBlock'' HorseBlockFailed (blockOutcomes text))
                  @ noHorsesError text (parsedHorses (blockOutcomes text)) = []),
      data = Some (parsedHorses (blockOutcomes text)),
      errors = (if skipInvalidHorses cfg then []
                else failureErrors ''horseBlock'' HorseBlockFailed (blockOutcomes text))
               @ noHorsesError text (parsedHorses (blockOutcomes text)),
      warnings = (if skipInvalidHorses cfg
                  then failureMessages HorseBlockFailed (blockOutcomes text) else [])
                 @ tooManyWarning cfg (parsedHorses (blockOutcomes text))\<rparr>"
  by (simp add: parseHorseDataInternal_def roster_result_def blockLoop_outcomes roster_init_def
        blockOutcomes_def noHorsesError_def tooManyWarning_def Let_def)

lemma parseHorseDataInternal_legacy_outcomes:
  "parseHorseDataInternal_legacy cfg text =
     \<lparr>success = ((if skipInvalidHorses cfg then []
                   else failureErrors ''horseLine'' HorseLineFailed (lineOutcomes text))
                  @ noHorsesError text (parsedHorses (lineOutcomes text)) = []),
      data = Some (parsedHorses (lineOutcomes text)),
      errors = (if skipInvalidHorses cfg then []
                else failureErrors ''horseLine'' HorseLineFailed (lineOutcomes text))
               @ noHorsesError text (parsedHorses (lineOutcomes text)),
      warnings = (if skipInvalidHorses cfg
                  then failureMessages HorseLineFailed (lineOutcomes text) else [])
                 @ tooManyWarning cfg (parsedHorses (lineOutcomes text))\<rparr>"
  by (simp add: parseHorseDataInternal_legacy_def roster_result_def
        lineLoop_outcomes [OF nonblank_lines_nonblank] roster_init_def
        lineOutcomes_def noHorsesError_def tooManyWarning_def Let_def)

lemma outcomes_accounted:
  "length (parsedHorses outs) + length (failureMessages mk outs) = length outs"
  by (induction outs) (auto simp add: outcome_defs split: sum.splits)

lemma failures_same_length:
  "length (failureErrors f mk outs) = length (failureMessages mk outs)"
  by (induction outs) (auto simp add: outcome_defs split: sum.splits)

lemma length_outcomesFrom: "length (outcomesFrom i blocks) = length blocks"
  by (simp add: outcomesFrom_def)

lemma length_lineOutcomesFrom: "length (lineOutcomesFrom i lines) = length lines"
  by (simp add: lineOutcomesFrom_def)

text \<open>The example rosters.\<close>

lemma split_five:
  "splitIntoHorseBlocks roster_five =
     [fragment ''1 1'' ''Alpha'', fragment ''1 2'' ''Bravo'', fragment ''2 3'' ''123'',
      fragment ''2 4'' ''Delta'', fragment ''3 5'' ''Echo'']"
  by (simp add: roster_five_def fragment_def roster_defs rx_defs)

lemma parse_alpha: "parseHorseBlock (fragment ''1 1'' ''Alpha'') k = Inr (plainHorse 1 ''Alpha'')"
  by (simp add: fragment_def plainHorse_def roster_defs jp_defs rx_defs Let_def)

lemma parse_bravo: "parseHorseBlock (fragment ''1 2'' ''Bravo'') k = Inr (plainHorse 2 ''Bravo'')"
  by (simp add: fragment_def plainHorse_def roster_defs jp_defs rx_defs Let_def)

lemma parse_123:
  "parseHorseBlock (fragment ''2 3'' ''123'') k = Inl (Error (HorseNameNotFound k))"
  by (simp add: fragment_def roster_defs jp_defs rx_defs Let_def)

lemma parse_delta: "parseHorseBlock (fragment ''2 4'' ''Delta'') k = Inr (plainHorse 4 ''Delta'')"
  by (simp add: fragment_def plainHorse_def roster_defs jp_defs rx_defs Let_def)

lemma parse_echo: "parseHorseBlock (fragment ''3 5'' ''Echo'') k = Inr (plainHorse 5 ''Echo'')"
  by (simp add: fragment_def plainHorse_def roster_defs jp_defs rx_defs Let_def)

lemma outcomes_five:
  "blockOutcomes roster_five =
     [(1, fragment ''1 1'' ''Alpha'', Inr (plainHorse 1 ''Alpha'')),
      (2, fragment ''1 2'' ''Bravo'', Inr (plainHorse 2 ''Bravo'')),
      (3, fragment ''2 3'' ''123'', Inl (Error (HorseNameNotFound 3))),
      (4, fragment ''2 4'' ''Delta'', Inr (plainHorse 4 ''Delta'')),
      (5, fragment ''3 5'' ''Echo'', Inr (plainHorse 5 ''Echo''))]"
  by (simp add: blockOutcomes_def outcomesFrom_def split_five parse_alpha parse_bravo parse_123
        parse_delta parse_echo)

lemma split_dup:
  "splitIntoHorseBlocks roster_dup = [fragment ''1 1'' ''Alpha'', fragment ''1 1'' ''Bravo'']"
  by (simp add: roster_dup_def fragment_def roster_defs rx_defs)

lemma parse_bravo_1: "parseHorseBlock (fragment ''1 1'' ''Bravo'') k = Inr (plainHorse 1 ''Bravo'')"
  by (simp add: fragment_def plainHorse_def roster_defs jp_defs rx_defs Let_def)

lemma outcomes_dup:
  "blockOutcomes roster_dup =
     [(1, fragment ''1 1'' ''Alpha'', Inr (plainHorse 1 ''Alpha'')),
      (2, fragment ''1 1'' ''Bravo'', Inr (plainHorse 1 ''Bravo''))]"
  by (simp add: blockOutcomes_def outcomesFrom_def split_dup parse_alpha parse_bravo_1)

lemma split_popular: "splitIntoHorseBlocks roster_popular = [block_popular]"
  by (simp add: roster_popular_def block_popular_def popular_line_def roster_defs jp_defs rx_defs)

lemma parse_popular: "parseHorseBlock block_popular k = Inl (ReferenceError ''odds'')"
  by (simp add: block_popular_def popular_line_def roster_defs jp_defs rx_defs Let_def)

lemma split_weighed: "splitIntoHorseBlocks roster_weighed = [block_weighed]"
  by (simp add: roster_weighed_def block_weighed_def roster_defs jp_defs rx_defs)

lemma parse_weighed: "parseHorseBlock block_weighed k = Inl (ReferenceError ''bodyWeight'')"
  by (simp add: block_weighed_def roster_defs jp_defs rx_defs Let_def)

lemma triggers_popular: "triggersUndeclared block_popular"
  by (simp add: triggersUndeclared_def block_popular_def popular_line_def roster_defs jp_defs
        rx_defs)

lemma triggers_weighed: "triggersUndeclared block_weighed"
  by (simp add: triggersUndeclared_def block_weighed_def roster_defs jp_defs rx_defs)

lemma lines_legacy:
  "nonblank_lines roster_legacy = [asc ''no number'', horse_line, asc ''bad line'']"
  by (simp add: roster_legacy_def horse_line_def roster_defs jp_defs rx_defs)

lemma parse_no_number:
  "parseHorseLine (trim (asc ''no number'')) k
     = Inl (Error (HorseLineMalformed (asc ''no number'')))"
  by (simp add: roster_defs jp_defs rx_defs)

lemma parse_bad_line:
  "parseHorseLine (trim (asc ''bad line'')) k = Inl (Error (HorseLineMalformed (asc ''bad line'')))"
  by (simp add: roster_defs jp_defs rx_defs)

lemma parse_horse_line: "parseHorseLine (trim horse_line) k = Inr legacyHorse"
  by (simp add: horse_line_def legacyHorse_def roster_defs jp_defs rx_defs)

lemma trim_examples:
  "trim (asc ''no number'') = asc ''no number''" "trim (asc ''bad line'') = asc ''bad line''"
  "trim horse_line = horse_line"
  by (simp_all add: horse_line_def trim_def is_ws_def jp_defs rx_defs)

lemma outcomes_legacy:
  "lineOutcomes roster_legacy =
     [(1, asc ''no number'', Inl (Error (HorseLineMalformed (asc ''no number'')))),
      (2, horse_line, Inr legacyHorse),
      (3, asc ''bad line'', Inl (Error (HorseLineMalformed (asc ''bad line''))))]"
  using parse_no_number parse_bad_line parse_horse_line
  by (simp add: lineOutcomes_def lineOutcomesFrom_def lines_legacy trim_examples)

text \<open>
  C3. For every roster block, with \<open>skipInvalidHorses = True\<close> each fragment whose
  extraction fails contributes its message to the warnings and nothing to the errors, and
  is left out of the returned list, while every other fragment contributes its record; the
  result is successful as soon as one record is returned. With \<open>skipInvalidHorses = False\<close>
  the error of each failed fragment is kept, and one failed fragment makes the result
  unsuccessful. Every fragment is either a record or a failure. This holds for the
  layout-keyed extractor (fragments are blocks) and the line-oriented one (fragments are
  the non-blank lines).
\<close>

theorem C3_fragment_failure_policy:
  "data (parseHorseDataInternal cfg text) = Some (parsedHorses (blockOutcomes text)) \<and>
   length (parsedHorses (blockOutcomes text))
     + length (failureMessages HorseBlockFailed (blockOutcomes text))
     = length (splitIntoHorseBlocks text) \<and>
   (skipInvalidHorses cfg \<longrightarrow>
      warnings (parseHorseDataInternal cfg text)
        = failureMessages HorseBlockFailed (blockOutcomes text)
          @ tooManyWarning cfg (parsedHorses (blockOutcomes text)) \<and>
      errors (parseHorseDataInternal cfg text)
        = noHorsesError text (parsedHorses (blockOutcomes text)) \<and>
      (success (parseHorseDataInternal cfg text) \<longleftrightarrow> parsedHorses (blockOutcomes text) \<noteq> [])) \<and>
   (\<not> skipInvalidHorses cfg \<longrightarrow>
      errors (parseHorseDataInternal cfg text)
        = failureErrors ''horseBlock'' HorseBlockFailed (blockOutcomes text)
          @ noHorsesError text (parsedHorses (blockOutcomes text)) \<and>
      warnings (parseHorseDataInternal cfg text)
        = tooManyWarning cfg (parsedHorses (blockOutcomes text)) \<and>
      (failureMessages HorseBlockFailed (blockOutcomes text) \<noteq> []
         \<longrightarrow> \<not> success (parseHorseDataInternal cfg text))) \<and>
   data (parseHorseDataInternal_legacy cfg text) = Some (parsedHorses (lineOutcomes text)) \<and>
   length (parsedHorses (lineOutcomes text))
     + length (failureMessages HorseLineFailed (lineOutcomes text))
     = length (nonblank_lines text) \<and>
   (skipInvalidHorses cfg \<longrightarrow>
      warnings (parseHorseDataInternal_legacy cfg text)
        = failureMessages HorseLineFailed (lineOutcomes text)
          @ tooManyWarning cfg (parsedHorses (lineOutcomes text)) \<and>
      errors (parseHorseDataInternal_legacy cfg text)
        = noHorsesError text (parsedHorses (lineOutcomes text)) \<and>
      (success (parseHorseDataInternal_legacy cfg text)
         \<longleftrightarrow> parsedHorses (lineOutcomes text) \<noteq> [])) \<and>
   (\<not> skipInvalidHorses cfg \<longrightarrow>
      errors (parseHorseDataInternal_legacy cfg text)
        = failureErrors ''horseLine'' HorseLineFailed (lineOutcomes text)
          @ noHorsesError text (parsedHorses (lineOutcomes text)) \<and>
      warnings (parseHorseDataInternal_legacy cfg text)
        = tooManyWarning cfg (parsedHorses (lineOutcomes text)) \<and>
      (failureMessages HorseLineFailed (lineOutcomes text) \<noteq> []
         \<longrightarrow> \<not> success (parseHorseDataInternal_legacy cfg text)))"
proof -
  have n1: "length (parsedHorses (blockOutcomes text))
              + length (failureMessages HorseBlockFailed (blockOutcomes text))
              = length (splitIntoHorseBlocks text)"
    by (simp add: outcomes_accounted blockOutcomes_def length_outcomesFrom)
  have n2: "length (parsedHorses (lineOutcomes text))
              + length (failureMessages HorseLineFailed (lineOutcomes text))
              = length (nonblank_lines text)"
    by (simp add: outcomes_accounted lineOutcomes_def length_lineOutcomesFrom)
  have f1: "failureMessages HorseBlockFailed (blockOutcomes text) \<noteq> [] \<Longrightarrow>
              failureErrors ''horseBlock'' HorseBlockFailed (blockOutcomes text) \<noteq> []"
    using failures_same_length [of "''horseBlock''" HorseBlockFailed "blockOutcomes text"]
    by auto
  have f2: "failureMessages HorseLineFailed (lineOutcomes text) \<noteq> [] \<Longrightarrow>
              failureErrors ''horseLine'' HorseLineFailed (lineOutcomes text) \<noteq> []"
    using failures_same_length [of "''horseLine''" HorseLineFailed "lineOutcomes text"]
    by auto
  have a: "data (parseHorseDataInternal cfg text) = Some (parsedHorses (blockOutcomes text))"
    by (simp add: parseHorseDataInternal_outcomes)
  have b: "skipInvalidHorses cfg \<longrightarrow>
      warnings (parseHorseDataInternal cfg text)
        = failureMessages HorseBlockFailed (blockOutcomes text)
          @ tooManyWarning cfg (parsedHorses (blockOutcomes text)) \<and>
      errors (parseHorseDataInternal cfg text)
        = noHorsesError text (parsedHorses (blockOutcomes text)) \<and>
      (success (parseHorseDataInternal cfg text) \<longleftrightarrow> parsedHorses (blockOutcomes text) \<noteq> [])"
    by (simp add: parseHorseDataInternal_outcomes noHorsesError_def)
  have c: "\<not> skipInvalidHorses cfg \<longrightarrow>
      errors (parseHorseDataInternal cfg text)
        = failureErrors ''horseBlock'' HorseBlockFailed (blockOutcomes text)
          @ noHorsesError text (parsedHorses (blockOutcomes text)) \<and>
      warnings (parseHorseDataInternal cfg text)
        = tooManyWarning cfg (parsedHorses (blockOutcomes text)) \<and>
      (failureMessages HorseBlockFailed (blockOutcomes text) \<noteq> []
         \<longrightarrow> \<not> success (parseHorseDataInternal cfg text))"
    using f1 by (simp add: parseHorseDataInternal_outcomes)
  have a': "data (parseHorseDataInternal_legacy cfg text) = Some (parsedHorses (lineOutcomes text))"
    by (simp add: parseHorseDataInternal_legacy_outcomes)
  have b': "skipInvalidHorses cfg \<longrightarrow>
      warnings (parseHorseDataInternal_legacy cfg text)
        = failureMessages HorseLineFailed (lineOutcomes text)
          @ tooManyWarning cfg (parsedHorses (lineOutcomes text)) \<and>
      errors (parseHorseDataInternal_legacy cfg text)
        = noHorsesError text (parsedHorses (lineOutcomes text)) \<and>
      (success (parseHorseDataInternal_legacy cfg text)
         \<longleftrightarrow> parsedHorses (lineOutcomes text) \<noteq> [])"
    by (simp add: parseHorseDataInternal_legacy_outcomes noHorsesError_def)
  have c': "\<not> skipInvalidHorses cfg \<longrightarrow>
      errors (parseHorseDataInternal_legacy cfg text)
        = failureErrors ''horseLine'' HorseLineFailed (lineOutcomes text)
          @ noHorsesError text (parsedHorses (lineOutcomes text)) \<and>
      warnings (parseHorseDataInternal_legacy cfg text)
        = tooManyWarning cfg (parsedHorses (lineOutcomes text)) \<and>
      (failureMessages HorseLineFailed (lineOutcomes text) \<noteq> []
         \<longrightarrow> \<not> success (parseHorseDataInternal_legacy cfg text))"
    using f2 by (simp add: parseHorseDataInternal_legacy_outcomes)
  from a n1 b c a' n2 b' c' show ?thesis by blast
qed

text \<open>
  The scenario of the specification: one malformed fragment among five. With the default
  configuration four records, one warning and success; with \<open>skipInvalidHorses = False\<close>
  one error and no success. The same for the line-oriented parser on its example.
\<close>

theorem C3_witness:
  "skipInvalidHorses defaultConfig \<and>
   data (parseHorseDataInternal defaultConfig roster_five)
     = Some [plainHorse 1 ''Alpha'', plainHorse 2 ''Bravo'', plainHorse 4 ''Delta'',
             plainHorse 5 ''Echo''] \<and>
   warnings (parseHorseDataInternal defaultConfig roster_five)
     = [HorseBlockFailed 3 (HorseNameNotFound 3)] \<and>
   errors (parseHorseDataInternal defaultConfig roster_five) = [] \<and>
   success (parseHorseDataInternal defaultConfig roster_five) \<and>
   \<not> skipInvalidHorses keepInvalidConfig \<and>
   map message (errors (parseHorseDataInternal keepInvalidConfig roster_five))
     = [HorseBlockFailed 3 (HorseNameNotFound 3)] \<and>
   warnings (parseHorseDataInternal keepInvalidConfig roster_five) = [] \<and>
   \<not> success (parseHorseDataInternal keepInvalidConfig roster_five) \<and>
   data (parseHorseDataInternal_legacy defaultConfig roster_legacy) = Some [legacyHorse] \<and>
   length (warnings (parseHorseDataInternal_legacy defaultConfig roster_legacy)) = 2 \<and>
   success (parseHorseDataInternal_legacy defaultConfig roster_legacy) \<and>
   \<not> success (parseHorseDataInternal_legacy keepInvalidConfig roster_legacy)"
  using C3_fragment_failure_policy [of defaultConfig roster_five]
    C3_fragment_failure_policy [of keepInvalidConfig roster_five]
    C3_fragment_failure_policy [of defaultConfig roster_legacy]
    C3_fragment_failure_policy [of keepInvalidConfig roster_legacy]
  by (simp add: outcomes_five outcomes_legacy outcome_defs defaultConfig_def
        keepInvalidConfig_def)


text \<open>What a fragment with a triggering line gives, and where the number of a record comes from.\<close>

lemma firstMatch_None: "firstMatch r ls = None \<longleftrightarrow> (\<forall>l \<in> set ls. \<not> js_test r l)"
  by (induction ls) (auto simp add: js_test_def split: option.splits)

lemma parseHorseBlock_undeclared:
  assumes "triggersUndeclared block"
  shows "\<exists>e. parseHorseBlock block k = Inl e"
proof -
  from assms have "firstMatch oddsPattern (split_nl block) \<noteq> None
                   \<or> firstMatch weightPattern (split_nl block) \<noteq> None"
    by (auto simp add: triggersUndeclared_def firstMatch_None)
  then show ?thesis
    by (auto simp add: parseHorseBlock_def Let_def split: option.splits)
qed

lemma parseHorseBlock_number:
  "parseHorseBlock block k = Inr h \<Longrightarrow> markerNumber block = Some (number h)"
  by (auto simp add: parseHorseBlock_def markerNumber_def Let_def
           split: option.splits if_splits)

lemma parsedHorses_filter:
  "length (parsedHorses (outcomesFrom i blocks))
     \<le> length (filter (\<lambda>b. \<not> triggersUndeclared b) blocks)"
proof (induction blocks arbitrary: i)
  case Nil
  then show ?case by (simp add: outcomesFrom_def outcome_defs)
next
  case (Cons b bs)
  show ?case
  proof (cases "triggersUndeclared b")
    case True
    then obtain e where "parseHorseBlock b (Suc i) = Inl e"
      using parseHorseBlock_undeclared by blast
    then show ?thesis
      using Cons.IH [of "Suc i"] True by (simp add: outcomesFrom_def outcome_defs)
  next
    case False
    then show ?thesis
      using Cons.IH [of "Suc i"]
      by (cases "parseHorseBlock b (Suc i)") (simp_all add: outcomesFrom_def outcome_defs)
  qed
qed

lemma outcome_is_parse:
  "(i, b, out) \<in> set (outcomesFrom j blocks) \<Longrightarrow> out = parseHorseBlock b i"
  by (auto simp add: outcomesFrom_def in_set_enumerate_eq)

lemma failure_in_messages:
  "(i, b, Inl e) \<in> set outs \<Longrightarrow> mk i (error_message e) \<in> set (failureMessages mk outs)"
  by (induction outs) (auto simp add: outcome_defs split: sum.splits)

lemma failure_in_errors:
  "(i, b, Inl e) \<in> set outs \<Longrightarrow>
     \<lparr>errType = HORSE_DATA, field = f, message = mk i (error_message e), rawData = Some b,
      lineNumber = Some i\<rparr> \<in> set (failureErrors f mk outs)"
  by (induction outs) (auto simp add: outcome_defs split: sum.splits)

lemma failureErrors_type: "e \<in> set (failureErrors f mk outs) \<Longrightarrow> errType e = HORSE_DATA"
  by (induction outs) (auto simp add: outcome_defs split: sum.splits)

lemma noHorsesError_type: "e \<in> set (noHorsesError text hs) \<Longrightarrow> errType e = HORSE_DATA"
  by (auto simp add: noHorsesError_def split: if_splits)

text \<open>
  C10. In the layout-keyed roster extractor, a fragment with a line that matches the
  popularity-odds pattern or the body-weight pattern always makes \<open>parseHorseBlock\<close>
  raise. In the roster result such a fragment is a warning when \<open>skipInvalidHorses\<close> is
  set and an error, with an unsuccessful result, when it is not; and the records returned
  are at most as many as the fragments without such a line.
\<close>

theorem C10_undeclared_assignment_fails:
  "(triggersUndeclared block \<longrightarrow> (\<exists>e. parseHorseBlock block k = Inl e)) \<and>
   (\<forall>(i, b, out) \<in> set (blockOutcomes text).
      triggersUndeclared b \<longrightarrow>
        (\<exists>e. out = Inl e \<and>
           (skipInvalidHorses cfg \<longrightarrow>
              HorseBlockFailed i (error_message e)
                \<in> set (warnings (parseHorseDataInternal cfg text))) \<and>
           (\<not> skipInvalidHorses cfg \<longrightarrow>
              \<lparr>errType = HORSE_DATA, field = ''horseBlock'',
               message = HorseBlockFailed i (error_message e), rawData = Some b,
               lineNumber = Some i\<rparr> \<in> set (errors (parseHorseDataInternal cfg text)) \<and>
              \<not> success (parseHorseDataInternal cfg text)))) \<and>
   (\<exists>hs. data (parseHorseDataInternal cfg text) = Some hs \<and>
         length hs \<le> length (filter (\<lambda>b. \<not> triggersUndeclared b) (splitIntoHorseBlocks text)))"
proof -
  have a: "triggersUndeclared block \<longrightarrow> (\<exists>e. parseHorseBlock block k = Inl e)"
    using parseHorseBlock_undeclared by blast
  have b: "\<forall>(i, b, out) \<in> set (blockOutcomes text).
      triggersUndeclared b \<longrightarrow>
        (\<exists>e. out = Inl e \<and>
           (skipInvalidHorses cfg \<longrightarrow>
              HorseBlockFailed i (error_message e)
                \<in> set (warnings (parseHorseDataInternal cfg text))) \<and>
           (\<not> skipInvalidHorses cfg \<longrightarrow>
              \<lparr>errType = HORSE_DATA, field = ''horseBlock'',
               message = HorseBlockFailed i (error_message e), rawData = Some b,
               lineNumber = Some i\<rparr> \<in> set (errors (parseHorseDataInternal cfg text)) \<and>
              \<not> success (parseHorseDataInternal cfg text)))"
  proof (clarify)
    fix i b out
    assume mem: "(i, b, out) \<in> set (blockOutcomes text)" and trig: "triggersUndeclared b"
    from mem have "out = parseHorseBlock b i"
      unfolding blockOutcomes_def by (rule outcome_is_parse)
    with trig obtain e where e: "out = Inl e"
      using parseHorseBlock_undeclared [of b i] by auto
    from mem e have m: "(i, b, Inl e) \<in> set (blockOutcomes text)" by simp
    have w: "HorseBlockFailed i (error_message e)
               \<in> set (failureMessages HorseBlockFailed (blockOutcomes text))"
      using m by (rule failure_in_messages)
    have r: "\<lparr>errType = HORSE_DATA, field = ''horseBlock'',
               message = HorseBlockFailed i (error_message e), rawData = Some b,
               lineNumber = Some i\<rparr>
               \<in> set (failureErrors ''horseBlock'' HorseBlockFailed (blockOutcomes text))"
      using m by (rule failure_in_errors)
    then have ne: "failureErrors ''horseBlock'' HorseBlockFailed (blockOutcomes text) \<noteq> []"
      by auto
    show "\<exists>e. out = Inl e \<and>
           (skipInvalidHorses cfg \<longrightarrow>
              HorseBlockFailed i (error_message e)
                \<in> set (warnings (parseHorseDataInternal cfg text))) \<and>
           (\<not> skipInvalidHorses cfg \<longrightarrow>
              \<lparr>errType = HORSE_DATA, field = ''horseBlock'',
               message = HorseBlockFailed i (error_message e), rawData = Some b,
               lineNumber = Some i\<rparr> \<in> set (errors (parseHorseDataInternal cfg text)) \<and>
              \<not> success (parseHorseDataInternal cfg text))"
      using e w r ne by (auto simp add: parseHorseDataInternal_outcomes)
  qed
  have c: "\<exists>hs. data (parseHorseDataInternal cfg text) = Some hs \<and>
         length hs \<le> length (filter (\<lambda>b. \<not> triggersUndeclared b) (splitIntoHorseBlocks text))"
    by (simp add: parseHorseDataInternal_outcomes blockOutcomes_def parsedHorses_filter)
  from a b c show ?thesis by blast
qed

theorem C10_witness:
  "triggersUndeclared block_popular \<and>
   parseHorseBlock block_popular 1 = Inl (ReferenceError ''odds'') \<and>
   triggersUndeclared block_weighed \<and>
   parseHorseBlock block_weighed 1 = Inl (ReferenceError ''bodyWeight'') \<and>
   blockOutcomes roster_popular = [(1, block_popular, Inl (ReferenceError ''odds''))] \<and>
   skipInvalidHorses defaultConfig \<and>
   HorseBlockFailed 1 (NotDefined ''odds'')
     \<in> set (warnings (parseHorseDataInternal defaultConfig roster_popular)) \<and>
   data (parseHorseDataInternal defaultConfig roster_popular) = Some [] \<and>
   \<not> skipInvalidHorses keepInvalidConfig \<and>
   \<lparr>errType = HORSE_DATA, field = ''horseBlock'',
    message = HorseBlockFailed 1 (NotDefined ''odds''), rawData = Some block_popular,
    lineNumber = Some 1\<rparr> \<in> set (errors (parseHorseDataInternal keepInvalidConfig roster_popular)) \<and>
   \<not> success (parseHorseDataInternal keepInvalidConfig roster_popular)"
proof -
  have o: "blockOutcomes roster_popular = [(1, block_popular, Inl (ReferenceError ''odds''))]"
    by (simp add: blockOutcomes_def outcomesFrom_def split_popular parse_popular)
  show ?thesis
    using triggers_popular triggers_weighed o
      C10_undeclared_assignment_fails [of block_popular 1 roster_popular defaultConfig]
      C10_undeclared_assignment_fails [of block_weighed 1 roster_popular keepInvalidConfig]
    by (simp add: parse_popular parse_weighed split_popular defaultConfig_def
          keepInvalidConfig_def)
qed


text \<open>The results of the roster extractors on the examples.\<close>

lemma five_default:
  "parseHorseDataInternal defaultConfig roster_five =
     \<lparr>success = True,
      data = Some [plainHorse 1 ''Alpha'', plainHorse 2 ''Bravo'', plainHorse 4 ''Delta'',
                   plainHorse 5 ''Echo''],
      errors = [], warnings = [HorseBlockFailed 3 (HorseNameNotFound 3)]\<rparr>"
  by (simp add: parseHorseDataInternal_outcomes outcomes_five outcome_defs defaultConfig_def)

lemma five_keep:
  "parseHorseDataInternal keepInvalidConfig roster_five =
     \<lparr>success = False,
      data = Some [plainHorse 1 ''Alpha'', plainHorse 2 ''Bravo'', plainHorse 4 ''Delta'',
                   plainHorse 5 ''Echo''],
      errors = [\<lparr>errType = HORSE_DATA, field = ''horseBlock'',
                 message = HorseBlockFailed 3 (HorseNameNotFound 3),
                 rawData = Some (fragment ''2 3'' ''123''), lineNumber = Some 3\<rparr>],
      warnings = []\<rparr>"
  by (simp add: parseHorseDataInternal_outcomes outcomes_five outcome_defs defaultConfig_def
        keepInvalidConfig_def)

lemma dup_default:
  "parseHorseDataInternal defaultConfig roster_dup =
     \<lparr>success = True, data = Some [plainHorse 1 ''Alpha'', plainHorse 1 ''Bravo''],
      errors = [], warnings = []\<rparr>"
  by (simp add: parseHorseDataInternal_outcomes outcomes_dup outcome_defs defaultConfig_def)

lemma legacy_default:
  "parseHorseDataInternal_legacy defaultConfig roster_legacy =
     \<lparr>success = True, data = Some [legacyHorse], errors = [],
      warnings = [HorseLineFailed 1 (HorseLineMalformed (asc ''no number'')),
                  HorseLineFailed 3 (HorseLineMalformed (asc ''bad line''))]\<rparr>"
  by (simp add: parseHorseDataInternal_legacy_outcomes outcomes_legacy outcome_defs
        defaultConfig_def)

lemma legacy_keep:
  "parseHorseDataInternal_legacy keepInvalidConfig roster_legacy =
     \<lparr>success = False, data = Some [legacyHorse],
      errors = [\<lparr>errType = HORSE_DATA, field = ''horseLine'',
                 message = HorseLineFailed 1 (HorseLineMalformed (asc ''no number'')),
                 rawData = Some (asc ''no number''), lineNumber = Some 1\<rparr>,
                \<lparr>errType = HORSE_DATA, field = ''horseLine'',
                 message = HorseLineFailed 3 (HorseLineMalformed (asc ''bad line'')),
                 rawData = Some (asc ''bad line''), lineNumber = Some 3\<rparr>],
      warnings = []\<rparr>"
  by (simp add: parseHorseDataInternal_legacy_outcomes outcomes_legacy outcome_defs
        defaultConfig_def keepInvalidConfig_def)

lemma empty_roster:
  "parseHorseDataInternal cfg [] =
     \<lparr>success = False, data = Some [],
      errors = [\<lparr>errType = HORSE_DATA, field = ''general'', message = NoValidHorses,
                 rawData = Some [], lineNumber = None\<rparr>],
      warnings = []\<rparr>"
  "parseHorseDataInternal_legacy cfg [] =
     \<lparr>success = False, data = Some [],
      errors = [\<lparr>errType = HORSE_DATA, field = ''general'', message = NoValidHorses,
                 rawData = Some [], lineNumber = None\<rparr>],
      warnings = []\<rparr>"
  by (simp_all add: parseHorseDataInternal_def parseHorseDataInternal_legacy_def
        roster_result_def roster_init_def splitIntoHorseBlocks_def nonblank_lines_def
        frameHorseLine_rx_def trim_def rx_defs)

text \<open>
  C9, as stated, fails: a roster with two fragments that carry the horse number 1 yields
  two records with the number 1, no error and no warning, and \<open>validateParsedData\<close>
  applied to the returned list reports nothing.
\<close>

theorem C9_counterexample:
  "data (parseHorseDataInternal defaultConfig roster_dup)
     = Some [plainHorse 1 ''Alpha'', plainHorse 1 ''Bravo''] \<and>
   map number [plainHorse 1 ''Alpha'', plainHorse 1 ''Bravo''] = [1, 1] \<and>
   errors (parseHorseDataInternal defaultConfig roster_dup) = [] \<and>
   warnings (parseHorseDataInternal defaultConfig roster_dup) = [] \<and>
   success (parseHorseDataInternal defaultConfig roster_dup) \<and>
   validateParsedData (JArr (map horseToJs [plainHorse 1 ''Alpha'', plainHorse 1 ''Bravo'']))
     = \<lparr>isValid = True, v_errors = []\<rparr>"
proof -
  have a: "map number [plainHorse 1 ''Alpha'', plainHorse 1 ''Bravo''] = [1, 1]"
    by (simp add: plainHorse_def)
  have b: "validateParsedData
             (JArr (map horseToJs [plainHorse 1 ''Alpha'', plainHorse 1 ''Bravo'']))
           = \<lparr>isValid = True, v_errors = []\<rparr>"
    by (simp add: validateParsedData_def)
  show ?thesis
    unfolding dup_default using a b by simp
qed

text \<open>
  C9, amended. The roster extractor returns one record for every fragment that parses, in
  order of appearance, each with the horse number of its marker line, whether or not that
  number occurred before; every diagnostic it produces has the kind \<open>HORSE_DATA\<close>, in
  both versions; and \<open>validateParsedData\<close> reports nothing for a list.
\<close>

theorem C9_numbers_not_checked:
  "data (parseHorseDataInternal cfg text) = Some (parsedHorses (blockOutcomes text)) \<and>
   (\<forall>(i, b, out) \<in> set (blockOutcomes text).
      \<forall>h. out = Inr h \<longrightarrow> markerNumber b = Some (number h)) \<and>
   (\<forall>e \<in> set (errors (parseHorseDataInternal cfg text)). errType e = HORSE_DATA) \<and>
   (\<forall>e \<in> set (errors (parseHorseDataInternal_legacy cfg text)). errType e = HORSE_DATA) \<and>
   validateParsedData (JArr xs) = \<lparr>isValid = True, v_errors = []\<rparr>"
proof -
  have a: "data (parseHorseDataInternal cfg text) = Some (parsedHorses (blockOutcomes text))"
    by (simp add: parseHorseDataInternal_outcomes)
  have b: "\<forall>(i, b, out) \<in> set (blockOutcomes text).
             \<forall>h. out = Inr h \<longrightarrow> markerNumber b = Some (number h)"
    using outcome_is_parse parseHorseBlock_number
    unfolding blockOutcomes_def by fastforce
  have c: "\<forall>e \<in> set (errors (parseHorseDataInternal cfg text)). errType e = HORSE_DATA"
    by (auto simp add: parseHorseDataInternal_outcomes
             dest: failureErrors_type noHorsesError_type)
  have d: "\<forall>e \<in> set (errors (parseHorseDataInternal_legacy cfg text)). errType e = HORSE_DATA"
    by (auto simp add: parseHorseDataInternal_legacy_outcomes
             dest: failureErrors_type noHorsesError_type)
  have e: "validateParsedData (JArr xs) = \<lparr>isValid = True, v_errors = []\<rparr>"
    by (simp add: validateParsedData_def)
  from a b c d e show ?thesis by blast
qed


theorem C9_witness:
  "blockOutcomes roster_dup =
     [(1, fragment ''1 1'' ''Alpha'', Inr (plainHorse 1 ''Alpha'')),
      (2, fragment ''1 1'' ''Bravo'', Inr (plainHorse 1 ''Bravo''))] \<and>
   markerNumber (fragment ''1 1'' ''Alpha'') = Some 1 \<and>
   markerNumber (fragment ''1 1'' ''Bravo'') = Some 1 \<and>
   map errType (errors (parseHorseDataInternal keepInvalidConfig roster_five)) = [HORSE_DATA] \<and>
   map errType (errors (parseHorseDataInternal_legacy keepInvalidConfig roster_legacy))
     = [HORSE_DATA, HORSE_DATA]"
proof -
  have n: "number (plainHorse 1 ''Alpha'') = 1" "number (plainHorse 1 ''Bravo'') = 1"
    by (simp_all add: plainHorse_def)
  note q = C9_numbers_not_checked [of defaultConfig roster_dup "[]", THEN conjunct2,
      THEN conjunct1, unfolded outcomes_dup]
  have m: "markerNumber (fragment ''1 1'' ''Alpha'') = Some 1"
    "markerNumber (fragment ''1 1'' ''Bravo'') = Some 1"
    using q n by simp_all
  have e: "map errType (errors (parseHorseDataInternal keepInvalidConfig roster_five))
             = [HORSE_DATA]"
    "map errType (errors (parseHorseDataInternal_legacy keepInvalidConfig roster_legacy))
             = [HORSE_DATA, HORSE_DATA]"
    by (simp_all add: five_keep legacy_keep)
  from outcomes_dup m e show ?thesis by simp
qed

subsection \<open>The entry point for the form\<close>

lemma formResult_cases:
  assumes "data r = Some hs" and "success r \<longleftrightarrow> errors r = []"
  shows "(success r \<longrightarrow> formResult r = Inr (map toForm hs)) \<and>
         (\<not> success r \<longrightarrow> (\<exists>e es. errors r = e # es \<and> formResult r = Inl (Error (message e))))"
  using assms by (cases "errors r") (simp_all add: formResult_def)

text \<open>
  C1, as stated, fails: on a roster text that cannot be parsed \<open>parseHorseData\<close> throws,
  in both versions; with \<open>skipInvalidHorses = False\<close> it also throws on the roster with
  one malformed fragment among five, although four fragments parse.
\<close>

theorem C1_counterexample:
  "parseHorseData defaultConfig [] = Inl (Error NoValidHorses) \<and>
   parseHorseData_legacy defaultConfig [] = Inl (Error NoValidHorses) \<and>
   parseHorseData keepInvalidConfig roster_five
     = Inl (Error (HorseBlockFailed 3 (HorseNameNotFound 3)))"
  by (simp add: parseHorseData_def parseHorseData_legacy_def formResult_def empty_roster
        five_keep)

text \<open>
  C1, amended. \<open>parseRaceInfo\<close>, \<open>parseOdds\<close> and \<open>parseHorseDataInternal\<close> return a
  result with its diagnostics for every text (they are total functions into results: their
  bodies raise nothing that is not caught). The entry point for the form,
  \<open>parseHorseData\<close>, returns the converted records when the internal result is
  successful, and otherwise throws an error that carries the message of the first error of
  the internal result, in both versions.
\<close>

theorem C1_form_entry_point_throws:
  "(success (parseHorseDataInternal cfg text) \<longrightarrow>
      parseHorseData cfg text = Inr (map toForm (parsedHorses (blockOutcomes text)))) \<and>
   (\<not> success (parseHorseDataInternal cfg text) \<longrightarrow>
      (\<exists>e es. errors (parseHorseDataInternal cfg text) = e # es \<and>
               parseHorseData cfg text = Inl (Error (message e)))) \<and>
   (success (parseHorseDataInternal_legacy cfg text) \<longrightarrow>
      parseHorseData_legacy cfg text = Inr (map toForm (parsedHorses (lineOutcomes text)))) \<and>
   (\<not> success (parseHorseDataInternal_legacy cfg text) \<longrightarrow>
      (\<exists>e es. errors (parseHorseDataInternal_legacy cfg text) = e # es \<and>
               parseHorseData_legacy cfg text = Inl (Error (message e))))"
proof -
  have a: "data (parseHorseDataInternal cfg text) = Some (parsedHorses (blockOutcomes text))"
    and b: "success (parseHorseDataInternal cfg text)
              \<longleftrightarrow> errors (parseHorseDataInternal cfg text) = []"
    by (simp_all add: parseHorseDataInternal_outcomes)
  have a': "data (parseHorseDataInternal_legacy cfg text)
              = Some (parsedHorses (lineOutcomes text))"
    and b': "success (parseHorseDataInternal_legacy cfg text)
               \<longleftrightarrow> errors (parseHorseDataInternal_legacy cfg text) = []"
    by (simp_all add: parseHorseDataInternal_legacy_outcomes)
  show ?thesis
    using formResult_cases [OF a b] formResult_cases [OF a' b']
    by (simp add: parseHorseData_def parseHorseData_legacy_def)
qed


theorem C1_witness:
  "success (parseHorseDataInternal defaultConfig roster_five) \<and>
   parseHorseData defaultConfig roster_five
     = Inr (map toForm [plainHorse 1 ''Alpha'', plainHorse 2 ''Bravo'', plainHorse 4 ''Delta'',
                        plainHorse 5 ''Echo'']) \<and>
   \<not> success (parseHorseDataInternal keepInvalidConfig roster_five) \<and>
   parseHorseData keepInvalidConfig roster_five
     = Inl (Error (HorseBlockFailed 3 (HorseNameNotFound 3))) \<and>
   success (parseHorseDataInternal_legacy defaultConfig roster_legacy) \<and>
   parseHorseData_legacy defaultConfig roster_legacy = Inr [toForm legacyHorse] \<and>
   \<not> success (parseHorseDataInternal_legacy keepInvalidConfig roster_legacy) \<and>
   parseHorseData_legacy keepInvalidConfig roster_legacy
     = Inl (Error (HorseLineFailed 1 (HorseLineMalformed (asc ''no number''))))"
proof -
  have s1: "success (parseHorseDataInternal defaultConfig roster_five)"
    and s2: "\<not> success (parseHorseDataInternal keepInvalidConfig roster_five)"
    and s3: "success (parseHorseDataInternal_legacy defaultConfig roster_legacy)"
    and s4: "\<not> success (parseHorseDataInternal_legacy keepInvalidConfig roster_legacy)"
    by (simp_all add: five_default five_keep legacy_default legacy_keep)
  have p1: "parsedHorses (blockOutcomes roster_five)
              = [plainHorse 1 ''Alpha'', plainHorse 2 ''Bravo'', plainHorse 4 ''Delta'',
                 plainHorse 5 ''Echo'']"
    and p2: "parsedHorses (lineOutcomes roster_legacy) = [legacyHorse]"
    by (simp_all add: outcomes_five outcomes_legacy parsedHorses_def)
  have r1: "parseHorseData defaultConfig roster_five
              = Inr (map toForm [plainHorse 1 ''Alpha'', plainHorse 2 ''Bravo'',
                                 plainHorse 4 ''Delta'', plainHorse 5 ''Echo''])"
    using C1_form_entry_point_throws [of defaultConfig roster_five] s1 by (simp add: p1)
  have r2: "parseHorseData keepInvalidConfig roster_five
              = Inl (Error (HorseBlockFailed 3 (HorseNameNotFound 3)))"
    using C1_form_entry_point_throws [of keepInvalidConfig roster_five] s2
    by (auto simp add: five_keep)
  have r3: "parseHorseData_legacy defaultConfig roster_legacy = Inr [toForm legacyHorse]"
    using C1_form_entry_point_throws [of defaultConfig roster_legacy] s3 by (simp add: p2)
  have r4: "parseHorseData_legacy keepInvalidConfig roster_legacy
              = Inl (Error (HorseLineFailed 1 (HorseLineMalformed (asc ''no number''))))"
    using C1_form_entry_point_throws [of keepInvalidConfig roster_legacy] s4
    by (auto simp add: legacy_keep)
  from s1 s2 s3 s4 r1 r2 r3 r4 show ?thesis by blast
qed


subsection \<open>The odds\<close>

lemmas odds_defs = scanOdds_def isHeaderLine_def frameHorseLine_rx_def winLine_rx_def
  placeLine_rx_def oddsLine_rx_def simpleOddsLine_rx_def parseOddsLine_def nonblank_lines_def
  trim_def is_ws_def parseInt_def parseFloat_def odds_pair_def

lemma scan_eight:
  "scanOdds odds_eight =
     ([(1, 12 / 5), (2, 18 / 5), (3, 24 / 5), (4, 6), (5, 12), (6, 18), (7, 24), (8, 30)],
      [(1, 11 / 10, 13 / 10), (2, 6 / 5, 3 / 2), (3, 7 / 5, 2), (4, 3 / 2, 5 / 2)])"
  by (simp add: odds_eight_def odds_defs jp_defs rx_defs)

lemma scan_unparsable: "scanOdds odds_unparsable = ([(1, 16 / 5)], [])"
  by (simp add: odds_unparsable_def odds_defs jp_defs rx_defs)

lemma scan_inverted: "scanOdds odds_inverted = ([(1, 1 / 2)], [(1, 1 / 2, 1 / 5)])"
  by (simp add: odds_inverted_def odds_defs jp_defs rx_defs)

lemma scan_place_only: "scanOdds odds_place_only = ([], [(1, 11 / 10, 13 / 10)])"
  by (simp add: odds_place_only_def odds_defs jp_defs rx_defs)

lemma legacy_odds_eval:
  "parseOdds_legacy cfg odds_legacy =
     \<lparr>success = True,
      data = Some [\<lparr>horseNumber = 2, winOdds = 1 / 2, placeOddsMin = 3, placeOddsMax = 2\<rparr>],
      errors = [],
      warnings = [OddsLineFailed 1 (OddsLineMalformed (asc ''1 no odds''))]\<rparr>"
  by (simp add: parseOdds_legacy_def odds_legacy_def odds_defs jp_defs rx_defs)

text \<open>The set of horse numbers, and the records made from it.\<close>

lemma set_foldl_set_add: "set (foldl set_add acc xs) = set acc \<union> set xs"
  by (induction xs arbitrary: acc) (auto simp add: set_add_def)

lemma distinct_foldl_set_add: "distinct acc \<Longrightarrow> distinct (foldl set_add acc xs)"
  by (induction xs arbitrary: acc) (auto simp add: set_add_def)

lemma set_new_Set: "set (new_Set xs) = set xs"
  by (simp add: new_Set_def set_foldl_set_add)

lemma distinct_new_Set: "distinct (new_Set xs)"
  by (simp add: new_Set_def distinct_foldl_set_add)

lemma horseNumber_oddsRecord: "horseNumber (oddsRecord cfg maps n) = n"
  by (simp add: oddsRecord_def Let_def)

lemma numbers_of_records: "map horseNumber (map (oddsRecord cfg maps) ks) = ks"
  by (induction ks) (simp_all add: horseNumber_oddsRecord)

lemma combineOdds_numbers:
  "set (map horseNumber (combineOdds cfg maps)) = fst ` set (fst maps) \<union> fst ` set (snd maps)"
  by (simp add: combineOdds_def image_image horseNumber_oddsRecord set_new_Set image_Un)

lemma combineOdds_sorted: "sorted (map horseNumber (combineOdds cfg maps))"
  by (simp add: combineOdds_def)

lemma combineOdds_distinct: "distinct (map horseNumber (combineOdds cfg maps))"
proof -
  let ?ks = "new_Set (map fst (fst maps) @ map fst (snd maps))"
  let ?rs = "map (oddsRecord cfg maps) ?ks"
  have "distinct (map horseNumber ?rs)"
    by (simp only: numbers_of_records distinct_new_Set)
  then have "distinct ?rs \<and> inj_on horseNumber (set ?rs)"
    by (simp only: distinct_map)
  then have "distinct (sort_key horseNumber ?rs) \<and> inj_on horseNumber (set (sort_key horseNumber ?rs))"
    by simp
  then show ?thesis
    by (simp only: combineOdds_def distinct_map)
qed

lemma combineOdds_record:
  assumes "r \<in> set (combineOdds cfg maps)"
  shows "r = oddsRecord cfg maps (horseNumber r)"
proof -
  from assms obtain n where "r = oddsRecord cfg maps n"
    by (auto simp add: combineOdds_def)
  then show ?thesis
    by (simp add: horseNumber_oddsRecord)
qed

lemma parseOdds_data: "data (parseOdds cfg text) = Some (combineOdds cfg (scanOdds text))"
  by (simp add: parseOdds_def)

text \<open>
  C4. For every odds block, the horse numbers of the returned records are exactly those
  that received win odds or place odds during the scan, in ascending order and without
  repetition; a record whose horse has no place odds has \<open>placeOddsMin = winOdds / 3\<close> and
  \<open>placeOddsMax = winOdds / 2\<close>; a record whose horse has no win odds has
  \<open>winOdds = defaultOdds\<close>; and win odds that were read (and are not zero) are returned as
  read.
\<close>

theorem C4_union_sorted_fallback:
  "\<exists>recs. data (parseOdds cfg text) = Some recs \<and>
     set (map horseNumber recs)
       = fst ` set (fst (scanOdds text)) \<union> fst ` set (snd (scanOdds text)) \<and>
     sorted (map horseNumber recs) \<and> distinct (map horseNumber recs) \<and>
     (\<forall>r \<in> set recs.
        (horseNumber r \<notin> fst ` set (snd (scanOdds text)) \<longrightarrow>
           placeOddsMin r = winOdds r / 3 \<and> placeOddsMax r = winOdds r / 2) \<and>
        (horseNumber r \<notin> fst ` set (fst (scanOdds text)) \<longrightarrow> winOdds r = defaultOdds cfg) \<and>
        (\<forall>w. map_of (fst (scanOdds text)) (horseNumber r) = Some w \<and> w \<noteq> 0
              \<longrightarrow> winOdds r = w))"
proof -
  let ?maps = "scanOdds text"
  let ?recs = "combineOdds cfg ?maps"
  have rec: "\<forall>r \<in> set ?recs.
        (horseNumber r \<notin> fst ` set (snd ?maps) \<longrightarrow>
           placeOddsMin r = winOdds r / 3 \<and> placeOddsMax r = winOdds r / 2) \<and>
        (horseNumber r \<notin> fst ` set (fst ?maps) \<longrightarrow> winOdds r = defaultOdds cfg) \<and>
        (\<forall>w. map_of (fst ?maps) (horseNumber r) = Some w \<and> w \<noteq> 0 \<longrightarrow> winOdds r = w)"
  proof
    fix r
    assume "r \<in> set ?recs"
    then have r: "r = oddsRecord cfg ?maps (horseNumber r)"
      by (rule combineOdds_record)
    have p: "horseNumber r \<notin> fst ` set (snd ?maps) \<longrightarrow>
               placeOddsMin r = winOdds r / 3 \<and> placeOddsMax r = winOdds r / 2"
    proof
      assume "horseNumber r \<notin> fst ` set (snd ?maps)"
      then have "map_of (snd ?maps) (horseNumber r) = None"
        by (simp add: map_of_eq_None_iff)
      then show "placeOddsMin r = winOdds r / 3 \<and> placeOddsMax r = winOdds r / 2"
        by (subst (1 2 3 4) r) (simp add: oddsRecord_def Let_def num_or_def)
    qed
    have w: "horseNumber r \<notin> fst ` set (fst ?maps) \<longrightarrow> winOdds r = defaultOdds cfg"
    proof
      assume "horseNumber r \<notin> fst ` set (fst ?maps)"
      then have "map_of (fst ?maps) (horseNumber r) = None"
        by (simp add: map_of_eq_None_iff)
      then show "winOdds r = defaultOdds cfg"
        by (subst r) (simp add: oddsRecord_def Let_def num_or_def)
    qed
    have k: "\<forall>w. map_of (fst ?maps) (horseNumber r) = Some w \<and> w \<noteq> 0 \<longrightarrow> winOdds r = w"
    proof (intro allI impI)
      fix w
      assume "map_of (fst ?maps) (horseNumber r) = Some w \<and> w \<noteq> 0"
      then show "winOdds r = w"
        by (subst r) (simp add: oddsRecord_def Let_def num_or_def)
    qed
    from p w k show "(horseNumber r \<notin> fst ` set (snd ?maps) \<longrightarrow>
           placeOddsMin r = winOdds r / 3 \<and> placeOddsMax r = winOdds r / 2) \<and>
        (horseNumber r \<notin> fst ` set (fst ?maps) \<longrightarrow> winOdds r = defaultOdds cfg) \<and>
        (\<forall>w. map_of (fst ?maps) (horseNumber r) = Some w \<and> w \<noteq> 0 \<longrightarrow> winOdds r = w)"
      by blast
  qed
  show ?thesis
    using parseOdds_data [of cfg "text"] combineOdds_numbers [of cfg ?maps]
      combineOdds_sorted [of cfg ?maps] combineOdds_distinct [of cfg ?maps] rec
    by blast
qed

text \<open>
  The scenario of the specification: win odds for the horses 1 to 8 and place odds for the
  horses 1 to 4 give eight records, of which the last four have approximated place odds.
\<close>

lemma eight_eval:
  "combineOdds defaultConfig (scanOdds odds_eight) =
     [\<lparr>horseNumber = 1, winOdds = 12 / 5, placeOddsMin = 11 / 10, placeOddsMax = 13 / 10\<rparr>,
      \<lparr>horseNumber = 2, winOdds = 18 / 5, placeOddsMin = 6 / 5, placeOddsMax = 3 / 2\<rparr>,
      \<lparr>horseNumber = 3, winOdds = 24 / 5, placeOddsMin = 7 / 5, placeOddsMax = 2\<rparr>,
      \<lparr>horseNumber = 4, winOdds = 6, placeOddsMin = 3 / 2, placeOddsMax = 5 / 2\<rparr>,
      \<lparr>horseNumber = 5, winOdds = 12, placeOddsMin = 4, placeOddsMax = 6\<rparr>,
      \<lparr>horseNumber = 6, winOdds = 18, placeOddsMin = 6, placeOddsMax = 9\<rparr>,
      \<lparr>horseNumber = 7, winOdds = 24, placeOddsMin = 8, placeOddsMax = 12\<rparr>,
      \<lparr>horseNumber = 8, winOdds = 30, placeOddsMin = 10, placeOddsMax = 15\<rparr>]"
  by (simp add: scan_eight combineOdds_def new_Set_def set_add_def oddsRecord_def num_or_def
        defaultConfig_def Let_def)

theorem C4_witness:
  "map horseNumber (the (data (parseOdds defaultConfig odds_eight))) = [1, 2, 3, 4, 5, 6, 7, 8] \<and>
   map fst (fst (scanOdds odds_eight)) = [1, 2, 3, 4, 5, 6, 7, 8] \<and>
   map fst (snd (scanOdds odds_eight)) = [1, 2, 3, 4] \<and>
   map (\<lambda>r. placeOddsMin r = winOdds r / 3 \<and> placeOddsMax r = winOdds r / 2)
     (drop 4 (the (data (parseOdds defaultConfig odds_eight)))) = [True, True, True, True] \<and>
   sorted (map horseNumber (the (data (parseOdds defaultConfig odds_eight)))) \<and>
   scanOdds odds_place_only = ([], [(1, 11 / 10, 13 / 10)]) \<and>
   data (parseOdds defaultConfig odds_place_only)
     = Some [\<lparr>horseNumber = 1, winOdds = defaultOdds defaultConfig, placeOddsMin = 11 / 10,
               placeOddsMax = 13 / 10\<rparr>]"
proof -
  have e: "the (data (parseOdds defaultConfig odds_eight))
             = combineOdds defaultConfig (scanOdds odds_eight)"
    by (simp add: parseOdds_data)
  have a: "map horseNumber (the (data (parseOdds defaultConfig odds_eight)))
             = [1, 2, 3, 4, 5, 6, 7, 8]"
    unfolding e eight_eval by simp
  have b: "map fst (fst (scanOdds odds_eight)) = [1, 2, 3, 4, 5, 6, 7, 8]"
    and c: "map fst (snd (scanOdds odds_eight)) = [1, 2, 3, 4]"
    unfolding scan_eight by simp_all
  have d: "map (\<lambda>r. placeOddsMin r = winOdds r / 3 \<and> placeOddsMax r = winOdds r / 2)
             (drop 4 (the (data (parseOdds defaultConfig odds_eight))))
           = [True, True, True, True]"
    unfolding e eight_eval by simp
  from C4_union_sorted_fallback [of defaultConfig odds_eight]
  obtain recs where rs: "data (parseOdds defaultConfig odds_eight) = Some recs \<and>
     set (map horseNumber recs)
       = fst ` set (fst (scanOdds odds_eight)) \<union> fst ` set (snd (scanOdds odds_eight)) \<and>
     sorted (map horseNumber recs) \<and> distinct (map horseNumber recs) \<and>
     (\<forall>r \<in> set recs.
        (horseNumber r \<notin> fst ` set (snd (scanOdds odds_eight)) \<longrightarrow>
           placeOddsMin r = winOdds r / 3 \<and> placeOddsMax r = winOdds r / 2) \<and>
        (horseNumber r \<notin> fst ` set (fst (scanOdds odds_eight))
           \<longrightarrow> winOdds r = defaultOdds defaultConfig) \<and>
        (\<forall>w. map_of (fst (scanOdds odds_eight)) (horseNumber r) = Some w \<and> w \<noteq> 0
              \<longrightarrow> winOdds r = w))" ..
  note r = rs [THEN conjunct1] and s = rs [THEN conjunct2, THEN conjunct2, THEN conjunct1]
  from r have "the (data (parseOdds defaultConfig odds_eight)) = recs"
    by simp
  with s have s': "sorted (map horseNumber (the (data (parseOdds defaultConfig odds_eight))))"
    by simp
  have p: "data (parseOdds defaultConfig odds_place_only)
             = Some [\<lparr>horseNumber = 1, winOdds = defaultOdds defaultConfig,
                       placeOddsMin = 11 / 10, placeOddsMax = 13 / 10\<rparr>]"
    by (simp add: parseOdds_data scan_place_only combineOdds_def new_Set_def set_add_def
          oddsRecord_def num_or_def Let_def)
  from a b c d s' scan_place_only p show ?thesis by (intro conjI)
qed

text \<open>The records of the odds extractors on the other example blocks.\<close>

lemma unparsable_eval:
  "parseOdds defaultConfig odds_unparsable =
     \<lparr>success = True,
      data = Some [\<lparr>horseNumber = 1, winOdds = 16 / 5, placeOddsMin = 16 / 15,
                    placeOddsMax = 8 / 5\<rparr>],
      errors = [], warnings = []\<rparr>"
  by (simp add: parseOdds_def scan_unparsable combineOdds_def new_Set_def set_add_def
        oddsRecord_def num_or_def defaultConfig_def Let_def)

lemma inverted_eval:
  "parseOdds defaultConfig odds_inverted =
     \<lparr>success = True,
      data = Some [\<lparr>horseNumber = 1, winOdds = 1 / 2, placeOddsMin = 1 / 2,
                    placeOddsMax = 1 / 5\<rparr>],
      errors = [], warnings = []\<rparr>"
  by (simp add: parseOdds_def scan_inverted combineOdds_def new_Set_def set_add_def
        oddsRecord_def num_or_def defaultConfig_def Let_def)

text \<open>
  C7. The layout-keyed \<open>parseOdds\<close> is successful on every block and produces no error,
  but it records no warning either: on a block whose second marker line is followed by a
  data line without a number, the pair is skipped and the list of warnings is empty. The
  line-oriented \<open>parseOdds\<close> records a warning for the line it cannot parse.
\<close>

theorem C7_layout_odds_skip_without_warning:
  "parseOdds defaultConfig odds_unparsable =
     \<lparr>success = True,
      data = Some [\<lparr>horseNumber = 1, winOdds = 16 / 5, placeOddsMin = 16 / 15,
                    placeOddsMax = 8 / 5\<rparr>],
      errors = [], warnings = []\<rparr> \<and>
   warnings (parseOdds cfg text) = [] \<and> success (parseOdds cfg text) \<and>
   errors (parseOdds cfg text) = [] \<and>
   warnings (parseOdds_legacy defaultConfig odds_legacy)
     = [OddsLineFailed 1 (OddsLineMalformed (asc ''1 no odds''))] \<and>
   success (parseOdds_legacy cfg text) \<and> errors (parseOdds_legacy cfg text) = []"
  by (simp add: unparsable_eval legacy_odds_eval) (simp add: parseOdds_def parseOdds_legacy_def Let_def)

text \<open>
  C8, as stated, fails: for a horse whose win odds 0.5 and place odds 0.5 - 0.2 are both
  read from the text, the record has win odds and a lower place bound below 1 and an upper
  place bound below the lower one. The line-oriented parser likewise returns the range
  3 - 2 as read.
\<close>

theorem C8_counterexample:
  "data (parseOdds defaultConfig odds_inverted)
     = Some [\<lparr>horseNumber = 1, winOdds = 1 / 2, placeOddsMin = 1 / 2, placeOddsMax = 1 / 5\<rparr>] \<and>
   scanOdds odds_inverted = ([(1, 1 / 2)], [(1, 1 / 2, 1 / 5)]) \<and>
   \<not> (1 / 5 \<ge> (1 / 2 :: rat)) \<and> \<not> (1 / 2 \<ge> (1 :: rat)) \<and>
   data (parseOdds_legacy defaultConfig odds_legacy)
     = Some [\<lparr>horseNumber = 2, winOdds = 1 / 2, placeOddsMin = 3, placeOddsMax = 2\<rparr>]"
  by (simp add: inverted_eval scan_inverted legacy_odds_eval)

text \<open>
  C8, amended. The bounds hold for a record when the odds read from the text for its
  horse satisfy them. For every odds block and every returned record: if the place section
  gave the horse a range with \<open>1 \<le> min \<le> max\<close>, the record has that range, so that
  \<open>placeOddsMax \<ge> placeOddsMin \<ge> 1\<close>; if the win section gave the horse odds \<open>w \<ge> 1\<close>,
  the record has \<open>winOdds = w\<close>, so that \<open>winOdds \<ge> 1\<close>; and if the place section gave
  the horse no range, the approximated range satisfies \<open>placeOddsMin \<le> placeOddsMax\<close> as
  soon as the win odds of the record are not negative.
\<close>

theorem C8_bounds_hold_when_read:
  "\<exists>recs. data (parseOdds cfg text) = Some recs \<and>
     (\<forall>r \<in> set recs.
        (\<forall>mn mx. map_of (snd (scanOdds text)) (horseNumber r) = Some (mn, mx) \<and>
                  1 \<le> mn \<and> mn \<le> mx
                  \<longrightarrow> placeOddsMin r = mn \<and> placeOddsMax r = mx \<and>
                       placeOddsMax r \<ge> placeOddsMin r \<and> placeOddsMin r \<ge> 1) \<and>
        (\<forall>w. map_of (fst (scanOdds text)) (horseNumber r) = Some w \<and> 1 \<le> w
              \<longrightarrow> winOdds r = w \<and> winOdds r \<ge> 1) \<and>
        (map_of (snd (scanOdds text)) (horseNumber r) = None \<and> 0 \<le> winOdds r
           \<longrightarrow> placeOddsMin r \<le> placeOddsMax r))"
proof -
  let ?maps = "scanOdds text"
  let ?recs = "combineOdds cfg ?maps"
  have "\<forall>r \<in> set ?recs.
        (\<forall>mn mx. map_of (snd ?maps) (horseNumber r) = Some (mn, mx) \<and> 1 \<le> mn \<and> mn \<le> mx
                  \<longrightarrow> placeOddsMin r = mn \<and> placeOddsMax r = mx \<and>
                       placeOddsMax r \<ge> placeOddsMin r \<and> placeOddsMin r \<ge> 1) \<and>
        (\<forall>w. map_of (fst ?maps) (horseNumber r) = Some w \<and> 1 \<le> w
              \<longrightarrow> winOdds r = w \<and> winOdds r \<ge> 1) \<and>
        (map_of (snd ?maps) (horseNumber r) = None \<and> 0 \<le> winOdds r
           \<longrightarrow> placeOddsMin r \<le> placeOddsMax r)"
  proof
    fix r
    assume "r \<in> set ?recs"
    then have r: "r = oddsRecord cfg ?maps (horseNumber r)"
      by (rule combineOdds_record)
    have p: "\<forall>mn mx. map_of (snd ?maps) (horseNumber r) = Some (mn, mx) \<and> 1 \<le> mn \<and> mn \<le> mx
                  \<longrightarrow> placeOddsMin r = mn \<and> placeOddsMax r = mx \<and>
                       placeOddsMax r \<ge> placeOddsMin r \<and> placeOddsMin r \<ge> 1"
    proof (intro allI impI)
      fix mn mx
      assume h: "map_of (snd ?maps) (horseNumber r) = Some (mn, mx) \<and> 1 \<le> mn \<and> mn \<le> mx"
      then have "placeOddsMin r = mn \<and> placeOddsMax r = mx"
        by (subst (1 2) r) (auto simp add: oddsRecord_def Let_def num_or_def)
      with h show "placeOddsMin r = mn \<and> placeOddsMax r = mx \<and>
                     placeOddsMax r \<ge> placeOddsMin r \<and> placeOddsMin r \<ge> 1"
        by simp
    qed
    have w: "\<forall>w. map_of (fst ?maps) (horseNumber r) = Some w \<and> 1 \<le> w
              \<longrightarrow> winOdds r = w \<and> winOdds r \<ge> 1"
    proof (intro allI impI)
      fix w
      assume h: "map_of (fst ?maps) (horseNumber r) = Some w \<and> 1 \<le> w"
      then have "winOdds r = w"
        by (subst r) (auto simp add: oddsRecord_def Let_def num_or_def)
      with h show "winOdds r = w \<and> winOdds r \<ge> 1"
        by simp
    qed
    have a: "map_of (snd ?maps) (horseNumber r) = None \<and> 0 \<le> winOdds r
               \<longrightarrow> placeOddsMin r \<le> placeOddsMax r"
    proof
      assume h: "map_of (snd ?maps) (horseNumber r) = None \<and> 0 \<le> winOdds r"
      then have "placeOddsMin r = winOdds r / 3 \<and> placeOddsMax r = winOdds r / 2"
        by (subst (1 2 3 4) r) (simp add: oddsRecord_def Let_def num_or_def)
      with h show "placeOddsMin r \<le> placeOddsMax r"
        by (simp add: field_simps)
    qed
    from p w a show "(\<forall>mn mx. map_of (snd ?maps) (horseNumber r) = Some (mn, mx) \<and> 1 \<le> mn \<and> mn \<le> mx
                  \<longrightarrow> placeOddsMin r = mn \<and> placeOddsMax r = mx \<and>
                       placeOddsMax r \<ge> placeOddsMin r \<and> placeOddsMin r \<ge> 1) \<and>
        (\<forall>w. map_of (fst ?maps) (horseNumber r) = Some w \<and> 1 \<le> w
              \<longrightarrow> winOdds r = w \<and> winOdds r \<ge> 1) \<and>
        (map_of (snd ?maps) (horseNumber r) = None \<and> 0 \<le> winOdds r
           \<longrightarrow> placeOddsMin r \<le> placeOddsMax r)"
      by (intro conjI)
  qed
  then show ?thesis
    by (simp only: parseOdds_data) (rule exI, rule conjI, rule refl, assumption)
qed

theorem C8_witness:
  "map_of (snd (scanOdds odds_eight)) 1 = Some (11 / 10, 13 / 10) \<and>
   map_of (fst (scanOdds odds_eight)) 1 = Some (12 / 5) \<and>
   map_of (snd (scanOdds odds_eight)) 5 = None \<and>
   map (\<lambda>r. placeOddsMax r \<ge> placeOddsMin r \<and> placeOddsMin r \<ge> 1 \<and> winOdds r \<ge> 1)
     (the (data (parseOdds defaultConfig odds_eight)))
     = [True, True, True, True, True, True, True, True] \<and>
   list_all (\<lambda>r. placeOddsMax r \<ge> placeOddsMin r)
     (the (data (parseOdds defaultConfig odds_eight)))"
proof -
  have e: "the (data (parseOdds defaultConfig odds_eight))
             = combineOdds defaultConfig (scanOdds odds_eight)"
    by (simp add: parseOdds_data)
  have a: "map_of (snd (scanOdds odds_eight)) 1 = Some (11 / 10, 13 / 10)"
    and b: "map_of (fst (scanOdds odds_eight)) 1 = Some (12 / 5)"
    and c: "map_of (snd (scanOdds odds_eight)) 5 = None"
    unfolding scan_eight by simp_all
  have d: "map (\<lambda>r. placeOddsMax r \<ge> placeOddsMin r \<and> placeOddsMin r \<ge> 1 \<and> winOdds r \<ge> 1)
             (the (data (parseOdds defaultConfig odds_eight)))
           = [True, True, True, True, True, True, True, True]"
    unfolding e eight_eval by simp
  from C8_bounds_hold_when_read [of defaultConfig odds_eight]
  obtain recs where rs: "data (parseOdds defaultConfig odds_eight) = Some recs \<and>
     (\<forall>r \<in> set recs.
        (\<forall>mn mx. map_of (snd (scanOdds odds_eight)) (horseNumber r) = Some (mn, mx) \<and>
                  1 \<le> mn \<and> mn \<le> mx
                  \<longrightarrow> placeOddsMin r = mn \<and> placeOddsMax r = mx \<and>
                       placeOddsMax r \<ge> placeOddsMin r \<and> placeOddsMin r \<ge> 1) \<and>
        (\<forall>w. map_of (fst (scanOdds odds_eight)) (horseNumber r) = Some w \<and> 1 \<le> w
              \<longrightarrow> winOdds r = w \<and> winOdds r \<ge> 1) \<and>
        (map_of (snd (scanOdds odds_eight)) (horseNumber r) = None \<and> 0 \<le> winOdds r
           \<longrightarrow> placeOddsMin r \<le> placeOddsMax r))" ..
  have f: "list_all (\<lambda>r. placeOddsMax r \<ge> placeOddsMin r)
             (the (data (parseOdds defaultConfig odds_eight)))"
    unfolding e eight_eval by simp
  from a b c d f show ?thesis by (intro conjI)
qed

end
